theory Spec2Isabelle
  imports Complex_Main
begin

section \<open>JavaScript objects and values\<close>

text \<open>
  An optional property of a JavaScript object literal is in one of three states: the
  object has no such property, the property is there and holds \<open>undefined\<close>, or it
  holds a value. Reading the property gives \<open>undefined\<close> in the first two; the object
  spread \<^verbatim>\<open>{...a, ...b}\<close> copies every property \<open>b\<close> has, also one that holds
  \<open>undefined\<close>.
\<close>

datatype 'a optional = Absent | Undefined | Val 'a

fun get :: "'a optional \<Rightarrow> 'a option" where
  "get Absent = None"
| "get Undefined = None"
| "get (Val x) = Some x"

fun spread :: "'a optional \<Rightarrow> 'a optional \<Rightarrow> 'a optional" where
  "spread base Absent = base"
| "spread base Undefined = Undefined"
| "spread base (Val x) = Val x"

text \<open>
  A value of type \<open>any\<close> that is resolved, rejected or thrown: an \<open>Error\<close> object with
  its message, or any other value.
\<close>

datatype 'v js_value = Error string | Value 'v

text \<open>
  The result of \<^verbatim>\<open>(loaded / total) * 100\<close>. \<open>Finite\<close> holds the exact quotient,
  which the double of the source rounds; division by zero gives \<open>NaN\<close> or \<open>Infinity\<close>.
\<close>

datatype number = Finite rat | NaN | Infinity

section \<open>Data model\<close>

record File =
  name :: string
  fsize :: nat
  lastModified :: int
  mime :: string
  content :: "nat list"

datatype http_method = POST | PUT | PATCH

text \<open>The field \<open>httpMethod\<close> is the property \<open>method\<close> of the source.\<close>

record UploadOptions =
  url :: "string optional"
  httpMethod :: "http_method optional"
  headers :: "(string \<times> string) list optional"
  data :: "(string \<times> string) list optional"

text \<open>
  What one call of an upload function comes to, seen from the race against the timer:
  its promise resolves before the timer fires, rejects before the timer fires, the call
  throws before returning a promise, or the promise is still pending when the timer fires.
\<close>

datatype 'v outcome =
  Resolves "'v js_value" | Rejects "'v js_value" | Throws "'v js_value" | Pending

text \<open>
  A custom uploader is a function of the file and the options. The third argument is the
  number of calls made before this one in the same \<open>upload\<close>: a JavaScript function
  may answer differently each time it is called.
\<close>

type_synonym 'v uploadFunction = "File \<Rightarrow> UploadOptions \<Rightarrow> nat \<Rightarrow> 'v outcome"

record 'v UploadConfig =
  accept :: "string optional"
  multiple :: "bool optional"
  maxRetries :: "int optional"
  timeout :: "int optional"
  maxSize :: "int optional"
  customUploader :: "'v uploadFunction optional"

datatype event_type = progress | error | success | retry | select

datatype 'v payload =
  FileList "File list"
| Text string
| Any "'v js_value"
| RetryInfo (attempt: nat) (cause: "'v js_value")
| ProgressInfo (total_bytes: nat) (loaded_bytes: nat) (percent: number)

record 'v UploadEvent =
  type :: event_type
  payload :: "'v payload"

datatype form_value = Blob File | Field string

record request =
  address :: string
  verb :: http_method
  head :: "(string \<times> string) list option"
  body :: "(string \<times> form_value) list"

text \<open>
  The effects of the uploader on its environment, in the order they happen: a call of the
  custom uploader, a \<open>fetch\<close>, the timer of the race, an event on the \<open>upload\<close>
  channel of the emitter, the timer of the backoff. The source clears no timer and aborts
  no request, so there is no effect for either. The listeners of the emitter are taken
  not to throw, and one call of \<open>upload\<close> is followed from its first attempt to the
  settling of its promise with no other call of the uploader in between.
\<close>

datatype 'v action =
  Invoke File UploadOptions
| Fetch request
| RaceTimer "int option"
| Emit "'v UploadEvent"
| BackoffTimer nat

datatype 'v settled = Resolved "'v js_value" | Rejected "'v js_value"

record HTMLInputElement =
  input_type :: string
  input_accept :: string
  input_multiple :: bool

record 'v Uploader =
  config :: "'v UploadConfig"
  fileCache :: "string \<rightharpoonup> File"
  inputElement :: HTMLInputElement
  defaultUploadOptions :: UploadOptions

text \<open>The network: what \<open>fetch\<close> followed by \<open>response.json()\<close> comes to for a
  request, at each call.\<close>

type_synonym 'v network = "request \<Rightarrow> nat \<Rightarrow> 'v outcome"

record ProgressEvent =
  lengthComputable :: bool
  loaded :: nat
  total :: nat

record 'v XMLHttpRequest =
  sent :: bool
  onprogress :: "(ProgressEvent \<Rightarrow> 'v action list) option"

section \<open>Construction and configuration\<close>

definition emitEvent :: "event_type \<Rightarrow> 'v payload \<Rightarrow> 'v action" where
  "emitEvent t p = Emit \<lparr>type = t, payload = p\<rparr>"

text \<open>The element stores \<open>accept\<close> as a string and \<open>multiple\<close> as a boolean:
  assigning \<open>undefined\<close> gives the string \<open>undefined\<close> and \<open>false\<close>.\<close>

definition createInputElement :: "'v UploadConfig \<Rightarrow> HTMLInputElement" where
  "createInputElement c =
     \<lparr>input_type = ''file'',
      input_accept = (case get (accept c) of None \<Rightarrow> ''undefined'' | Some a \<Rightarrow> a),
      input_multiple = (case get (multiple c) of None \<Rightarrow> False | Some m \<Rightarrow> m)\<rparr>"

definition mergeConfig :: "'v UploadConfig \<Rightarrow> 'v UploadConfig" where
  "mergeConfig c =
     \<lparr>accept = spread (Val ''*'') (accept c),
      multiple = spread (Val False) (multiple c),
      maxRetries = spread (Val 3) (maxRetries c),
      timeout = spread (Val 30000) (timeout c),
      maxSize = spread (Val (10 * 1024 * 1024)) (maxSize c),
      customUploader = spread Absent (customUploader c)\<rparr>"

definition new_Uploader :: "'v UploadConfig \<Rightarrow> 'v Uploader" where
  "new_Uploader c =
     \<lparr>config = mergeConfig c,
      fileCache = Map.empty,
      inputElement = createInputElement (mergeConfig c),
      defaultUploadOptions =
        \<lparr>url = Val ''/upload'', httpMethod = Val POST, headers = Absent, data = Absent\<rparr>\<rparr>"

definition mergeOptions :: "UploadOptions \<Rightarrow> UploadOptions \<Rightarrow> UploadOptions" where
  "mergeOptions base over =
     \<lparr>url = spread (url base) (url over),
      httpMethod = spread (httpMethod base) (httpMethod over),
      headers = spread (headers base) (headers over),
      data = spread (data base) (data over)\<rparr>"

definition setDefaultUploadOptions :: "'v Uploader \<Rightarrow> UploadOptions \<Rightarrow> 'v Uploader" where
  "setDefaultUploadOptions u options =
     u\<lparr>defaultUploadOptions := mergeOptions (defaultUploadOptions u) options\<rparr>"

section \<open>File selection\<close>

text \<open>The key is the name, the size and the modification time, joined by hyphens in a
  template literal. \<open>number_to_string\<close> prints every integer in full decimal digits,
  as JavaScript does up to \<open>2^53\<close>; above it JavaScript rounds to 17 significant
  digits, which the model does not follow. Equal numbers give equal digits in both.\<close>

fun digits :: "nat \<Rightarrow> string" where
  "digits n =
     (if n < 10 then [char_of (48 + n)] else digits (n div 10) @ [char_of (48 + n mod 10)])"

definition number_to_string :: "int \<Rightarrow> string" where
  "number_to_string i = (if i < 0 then ''-'' @ digits (nat (- i)) else digits (nat i))"

definition generateFileKey :: "File \<Rightarrow> string" where
  "generateFileKey f =
     name f @ ''-'' @ number_to_string (int (fsize f)) @ ''-'' @ number_to_string (lastModified f)"

text \<open>\<^verbatim>\<open>this.config.maxSize || Infinity\<close>: \<open>None\<close> is \<open>Infinity\<close>. An \<open>undefined\<close>
  limit and a limit of 0 are both falsy.\<close>

definition sizeLimit :: "'v Uploader \<Rightarrow> int option" where
  "sizeLimit u =
     (case get (maxSize (config u)) of
        None \<Rightarrow> None
      | Some m \<Rightarrow> if m = 0 then None else Some m)"

definition withinLimit :: "'v Uploader \<Rightarrow> File \<Rightarrow> bool" where
  "withinLimit u f = (case sizeLimit u of None \<Rightarrow> True | Some m \<Rightarrow> int (fsize f) \<le> m)"

text \<open>The message of the error event of a selection, twelve Chinese characters
  (U+90E8 U+5206 U+6587 U+4EF6 U+8D85 U+8FC7 U+6700 U+5927 U+5C3A U+5BF8 U+9650 U+5236),
  here in UTF-8.\<close>

definition oversizeMessage :: string where
  "oversizeMessage =
     [CHR 0xE9, CHR 0x83, CHR 0xA8, CHR 0xE5, CHR 0x88, CHR 0x86, CHR 0xE6, CHR 0x96, CHR 0x87,
      CHR 0xE4, CHR 0xBB, CHR 0xB6, CHR 0xE8, CHR 0xB6, CHR 0x85, CHR 0xE8, CHR 0xBF, CHR 0x87,
      CHR 0xE6, CHR 0x9C, CHR 0x80, CHR 0xE5, CHR 0xA4, CHR 0xA7, CHR 0xE5, CHR 0xB0, CHR 0xBA,
      CHR 0xE5, CHR 0xAF, CHR 0xB8, CHR 0xE9, CHR 0x99, CHR 0x90, CHR 0xE5, CHR 0x88, CHR 0xB6]"

definition cacheAll :: "File list \<Rightarrow> (string \<rightharpoonup> File) \<Rightarrow> (string \<rightharpoonup> File)" where
  "cacheAll fs c = fold (\<lambda>f m. m(generateFileKey f \<mapsto> f)) fs c"

definition handleFileSelection :: "'v Uploader \<Rightarrow> File list \<Rightarrow> 'v Uploader \<times> 'v action list" where
  "handleFileSelection u files =
     (let validFiles = filter (withinLimit u) files
      in (u\<lparr>fileCache := cacheAll validFiles (fileCache u)\<rparr>,
          (if length validFiles \<noteq> length files then [emitEvent error (Text oversizeMessage)] else [])
          @ [emitEvent select (FileList validFiles)]))"

text \<open>The listener of the input element's \<open>change\<close> event; \<open>None\<close> is a null
  \<open>files\<close> property.\<close>

definition onChange :: "'v Uploader \<Rightarrow> File list option \<Rightarrow> 'v Uploader \<times> 'v action list" where
  "onChange u files =
     (case files of None \<Rightarrow> (u, []) | Some selectedFiles \<Rightarrow> handleFileSelection u selectedFiles)"

definition getCachedFile :: "'v Uploader \<Rightarrow> string \<Rightarrow> File option" where
  "getCachedFile u fileKey = fileCache u fileKey"

section \<open>Upload\<close>

definition emptyOptions :: UploadOptions where
  "emptyOptions = \<lparr>url = Absent, httpMethod = Absent, headers = Absent, data = Absent\<rparr>"

definition formData :: "File \<Rightarrow> UploadOptions option \<Rightarrow> (string \<times> form_value) list" where
  "formData f options =
     (''file'', Blob f) #
     (case Option.bind options (\<lambda>opts. get (data opts)) of
        None \<Rightarrow> []
      | Some entries \<Rightarrow> map (\<lambda>(k, v). (k, Field v)) entries)"

text \<open>The arguments of \<open>fetch\<close>. \<open>options?.url || '/upload'\<close>: an empty
  address is falsy too.\<close>

definition fetchRequest :: "File \<Rightarrow> UploadOptions option \<Rightarrow> request" where
  "fetchRequest f options =
     \<lparr>address =
        (case Option.bind options (\<lambda>opts. get (url opts)) of
           None \<Rightarrow> ''/upload''
         | Some a \<Rightarrow> if a = [] then ''/upload'' else a),
      verb = (case Option.bind options (\<lambda>opts. get (httpMethod opts)) of None \<Rightarrow> POST | Some m \<Rightarrow> m),
      head = Option.bind options (\<lambda>opts. get (headers opts)),
      body = formData f options\<rparr>"

definition defaultUploader ::
  "'v network \<Rightarrow> File \<Rightarrow> UploadOptions option \<Rightarrow> nat \<Rightarrow> 'v action list \<times> 'v outcome" where
  "defaultUploader net f options n =
     (let req = fetchRequest f options in ([Fetch req], net req n))"

text \<open>\<open>this.config.customUploader || this.defaultUploader\<close>, called with the file and
  the merged options.\<close>

definition uploadFunction ::
  "'v network \<Rightarrow> 'v Uploader \<Rightarrow> File \<Rightarrow> UploadOptions \<Rightarrow> nat \<Rightarrow> 'v action list \<times> 'v outcome" where
  "uploadFunction net u f options n =
     (case get (customUploader (config u)) of
        Some custom \<Rightarrow> ([Invoke f options], custom f options n)
      | None \<Rightarrow> defaultUploader net f (Some options) n)"

text \<open>What \<open>await Promise.race([uploadPromise, timeoutPromise])\<close> gives inside the
  \<open>try\<close>: the result (\<open>Inr\<close>) or the value caught (\<open>Inl\<close>).\<close>

fun race :: "'v outcome \<Rightarrow> 'v js_value + 'v js_value" where
  "race (Resolves r) = Inr r"
| "race (Rejects e) = Inl e"
| "race (Throws e) = Inl e"
| "race Pending = Inl (Error ''Upload timeout'')"

text \<open>The timer is created once the upload function has returned its promise.\<close>

fun raceTimer :: "'v Uploader \<Rightarrow> 'v outcome \<Rightarrow> 'v action list" where
  "raceTimer u (Throws e) = []"
| "raceTimer u oc = [RaceTimer (get (timeout (config u)))]"

text \<open>\<open>retries < this.config.maxRetries!\<close>: a comparison with \<open>undefined\<close> is false.\<close>

definition canRetry :: "'v Uploader \<Rightarrow> nat \<Rightarrow> bool" where
  "canRetry u retries =
     (case get (maxRetries (config u)) of None \<Rightarrow> False | Some n \<Rightarrow> int retries < n)"

function attemptUpload ::
  "'v network \<Rightarrow> 'v Uploader \<Rightarrow> File \<Rightarrow> UploadOptions \<Rightarrow> string \<Rightarrow> nat
     \<Rightarrow> 'v Uploader \<times> 'v action list \<times> 'v settled" where
  "attemptUpload net u f mergedOptions fileKey retries =
     (case uploadFunction net u f mergedOptions retries of
        (call, oc) \<Rightarrow>
          (case race oc of
             Inr result \<Rightarrow>
               (u\<lparr>fileCache := (fileCache u)(fileKey := None)\<rparr>,
                call @ raceTimer u oc @ [emitEvent success (Any result)],
                Resolved result)
           | Inl err \<Rightarrow>
               if canRetry u retries then
                 (case attemptUpload net u f mergedOptions fileKey (Suc retries) of
                    (u', rest, res) \<Rightarrow>
                      (u',
                       call @ raceTimer u oc
                         @ [emitEvent error (Any err),
                            emitEvent retry (RetryInfo (Suc retries) err),
                            BackoffTimer (1000 * Suc retries)]
                         @ rest,
                       res))
               else
                 (u, call @ raceTimer u oc @ [emitEvent error (Any err)], Rejected err)))"
  by pat_completeness auto
termination
  by (relation "measure (\<lambda>(net, u, f, mergedOptions, fileKey, retries).
        case get (maxRetries (config u)) of None \<Rightarrow> 0 | Some n \<Rightarrow> nat (n - int retries))")
     (auto simp: canRetry_def split: option.splits)

definition percentComplete :: "ProgressEvent \<Rightarrow> number" where
  "percentComplete ev =
     (if total ev = 0 then (if loaded ev = 0 then NaN else Infinity)
      else Finite (of_nat (loaded ev) / of_nat (total ev) * 100))"

definition onprogressHandler :: "ProgressEvent \<Rightarrow> 'v action list" where
  "onprogressHandler ev =
     (if lengthComputable ev
      then [emitEvent progress (ProgressInfo (total ev) (loaded ev) (percentComplete ev))]
      else [])"

text \<open>\<open>new XMLHttpRequest()\<close>: nothing is sent and there is no handler.\<close>

definition new_XMLHttpRequest :: "'v XMLHttpRequest" where
  "new_XMLHttpRequest = \<lparr>sent = False, onprogress = None\<rparr>"

text \<open>
  The browser's side of upload progress: the progress events of a request go to the
  handler of the \<open>XMLHttpRequest\<close> object that sent it. An object whose \<open>send\<close> was
  never called makes no request and gets no event.
\<close>

definition dispatchProgress :: "'v XMLHttpRequest \<Rightarrow> ProgressEvent list \<Rightarrow> 'v action list" where
  "dispatchProgress xhr native =
     (if sent xhr
      then (case onprogress xhr of None \<Rightarrow> [] | Some handler \<Rightarrow> concat (map handler native))
      else [])"

text \<open>
  \<open>uploadWithProgress\<close> makes a request object, gives it the progress handler and
  calls the upload closure. It never opens or sends the object, and the closure it calls
  does not know of it. \<open>native\<close> are the progress events the browser has for the
  transfer.
\<close>

definition uploadWithProgress ::
  "ProgressEvent list \<Rightarrow> File \<Rightarrow> ('v Uploader \<times> 'v action list \<times> 'v settled)
     \<Rightarrow> 'v Uploader \<times> 'v action list \<times> 'v settled" where
  "uploadWithProgress native f uploadMethod =
     (let xhr = new_XMLHttpRequest\<lparr>onprogress := Some onprogressHandler\<rparr>
      in case uploadMethod of
           (u', actions, res) \<Rightarrow> (u', actions @ dispatchProgress xhr native, res))"

text \<open>\<open>{...this.defaultUploadOptions, ...uploadOptions}\<close>; spreading \<open>undefined\<close>
  adds nothing.\<close>

definition mergedOptions :: "'v Uploader \<Rightarrow> UploadOptions option \<Rightarrow> UploadOptions" where
  "mergedOptions u uploadOptions =
     mergeOptions (defaultUploadOptions u)
       (case uploadOptions of None \<Rightarrow> emptyOptions | Some opts \<Rightarrow> opts)"

definition upload ::
  "'v network \<Rightarrow> ProgressEvent list \<Rightarrow> 'v Uploader \<Rightarrow> File \<Rightarrow> UploadOptions option
     \<Rightarrow> 'v Uploader \<times> 'v action list \<times> 'v settled" where
  "upload net native u f uploadOptions =
     (let fileKey = generateFileKey f
      in uploadWithProgress native f
           (attemptUpload net u f (mergedOptions u uploadOptions) fileKey 0))"

section \<open>Observations on a run\<close>

text \<open>The payloads of the events of one type, in the order they were emitted.\<close>

fun emitted :: "event_type \<Rightarrow> 'v action \<Rightarrow> 'v payload list" where
  "emitted t (Emit ev) = (if type ev = t then [payload ev] else [])"
| "emitted t a = []"

definition payloads :: "event_type \<Rightarrow> 'v action list \<Rightarrow> 'v payload list" where
  "payloads t actions = concat (map (emitted t) actions)"

text \<open>The calls of the upload function, and the delays of the backoff timers.\<close>

fun isCall :: "'v action \<Rightarrow> bool" where
  "isCall (Invoke f opts) = True"
| "isCall (Fetch r) = True"
| "isCall a = False"

definition calls :: "'v action list \<Rightarrow> 'v action list" where
  "calls actions = filter isCall actions"

fun backoff :: "'v action \<Rightarrow> nat list" where
  "backoff (BackoffTimer n) = [n]"
| "backoff a = []"

definition backoffs :: "'v action list \<Rightarrow> nat list" where
  "backoffs actions = concat (map backoff actions)"

definition uploadCall :: "'v Uploader \<Rightarrow> File \<Rightarrow> UploadOptions \<Rightarrow> 'v action" where
  "uploadCall u f options =
     (case get (customUploader (config u)) of
        Some custom \<Rightarrow> Invoke f options
      | None \<Rightarrow> Fetch (fetchRequest f (Some options)))"

section \<open>Timeouts read as rejections\<close>

text \<open>
  The spec says that an attempt whose timer fires first is treated as a failure with a
  timeout error. These two definitions follow those words, for the comparison with
  \<open>race\<close>: \<open>timeoutAsRejection\<close> turns a promise that is pending when the timer
  fires into a promise rejected with the timeout error, and \<open>withTimeoutsAsRejections\<close>
  does so in every answer of the custom uploader.
\<close>

definition timeoutAsRejection :: "'v outcome \<Rightarrow> 'v outcome" where
  "timeoutAsRejection oc = (case oc of Pending \<Rightarrow> Rejects (Error ''Upload timeout'') | _ \<Rightarrow> oc)"

definition withTimeoutsAsRejections :: "'v Uploader \<Rightarrow> 'v Uploader" where
  "withTimeoutsAsRejections u =
     u\<lparr>config := (config u)
        \<lparr>customUploader :=
           map_optional (\<lambda>custom f options n. timeoutAsRejection (custom f options n))
             (customUploader (config u))\<rparr>\<rparr>"

section \<open>Sample uploaders and files\<close>

text \<open>Concrete uploaders, files, upload functions and networks, on which the theorems
  are instantiated.\<close>

definition emptyConfig :: "nat UploadConfig" where
  "emptyConfig =
     \<lparr>accept = Absent, multiple = Absent, maxRetries = Absent, timeout = Absent,
      maxSize = Absent, customUploader = Absent\<rparr>"

definition report :: File where
  "report =
     \<lparr>name = ''report.txt'', fsize = 12, lastModified = 1700000000000,
      mime = ''text/plain'', content = [110, 111, 116, 101]\<rparr>"

definition reportAgain :: File where
  "reportAgain = report\<lparr>content := [101, 100, 105, 116]\<rparr>"

definition video :: File where
  "video =
     \<lparr>name = ''video.mp4'', fsize = 2097152, lastModified = 1700000000001,
      mime = ''video/mp4'', content = []\<rparr>"

definition megabyteUploader :: "nat Uploader" where
  "megabyteUploader = new_Uploader (emptyConfig\<lparr>maxSize := Val (1024 * 1024), multiple := Val True\<rparr>)"

definition zeroLimitUploader :: "nat Uploader" where
  "zeroLimitUploader = new_Uploader (emptyConfig\<lparr>maxSize := Val 0\<rparr>)"

definition rejecting :: "nat uploadFunction" where
  "rejecting f options n = Rejects (Value n)"

definition twoRetries :: "nat Uploader" where
  "twoRetries = new_Uploader (emptyConfig\<lparr>maxRetries := Val 2, customUploader := Val rejecting\<rparr>)"

definition answering :: "nat network" where
  "answering req n = Resolves (Value 200)"

definition halfway :: ProgressEvent where
  "halfway = \<lparr>lengthComputable = True, loaded = 50, total = 100\<rparr>"

definition customOnce :: "nat uploadFunction" where
  "customOnce f options n = Resolves (Value 7)"

definition customConfig :: "nat UploadConfig" where
  "customConfig = emptyConfig\<lparr>customUploader := Val customOnce\<rparr>"

definition unreachable :: "nat network" where
  "unreachable req n = Rejects (Error ''Failed to fetch'')"

definition logo :: File where
  "logo =
     \<lparr>name = ''logo.png'', fsize = 2048, lastModified = 1700000000002,
      mime = ''image/png'', content = [137, 80, 78, 71]\<rparr>"

definition stalled :: "nat network" where
  "stalled req n = Pending"

definition slowThenAnswering :: "nat network" where
  "slowThenAnswering req n = (if n = 0 then Pending else Resolves (Value 9))"

definition throwing :: "nat uploadFunction" where
  "throwing f options n = Throws (Error ''not ready'')"

definition throwingUploader :: "nat Uploader" where
  "throwingUploader = new_Uploader (emptyConfig\<lparr>maxRetries := Val 0, customUploader := Val throwing\<rparr>)"

definition oneRetry :: "nat Uploader" where
  "oneRetry = new_Uploader (emptyConfig\<lparr>maxRetries := Val 1, timeout := Val 5000\<rparr>)"

definition twoCached :: "nat Uploader" where
  "twoCached = fst (handleFileSelection megabyteUploader [report, logo])"

section \<open>Properties of file selection\<close>

declare attemptUpload.simps [simp del]
declare digits.simps [simp del]

lemma payloads_simps [simp]:
  "payloads t [] = []"
  "payloads t (emitEvent t' p # as) = (if t' = t then p # payloads t as else payloads t as)"
  "payloads t (Invoke f opts # as) = payloads t as"
  "payloads t (Fetch r # as) = payloads t as"
  "payloads t (RaceTimer d # as) = payloads t as"
  "payloads t (BackoffTimer n # as) = payloads t as"
  "payloads t (as @ bs) = payloads t as @ payloads t bs"
  by (simp_all add: payloads_def emitEvent_def)

lemma cacheAll_Nil [simp]: "cacheAll [] c = c"
  by (simp add: cacheAll_def)

lemma cacheAll_Cons [simp]: "cacheAll (f # fs) c = cacheAll fs (c(generateFileKey f \<mapsto> f))"
  by (simp add: cacheAll_def)

lemma cacheAll_append [simp]: "cacheAll (fs @ gs) c = cacheAll gs (cacheAll fs c)"
  by (simp add: cacheAll_def)

lemma cacheAll_other: "k \<notin> generateFileKey ` set fs \<Longrightarrow> cacheAll fs c k = c k"
  by (induction fs arbitrary: c) auto

lemma cacheAll_from_batch:
  "cacheAll fs c k = Some f \<Longrightarrow> (f \<in> set fs \<and> generateFileKey f = k) \<or> c k = Some f"
proof (induction fs arbitrary: c)
  case Nil
  then show ?case by simp
next
  case (Cons a fs)
  from Cons.prems have "cacheAll fs (c(generateFileKey a \<mapsto> a)) k = Some f" by simp
  from Cons.IH [OF this] show ?case
    by (auto split: if_splits)
qed

lemma cacheAll_hit:
  "g \<in> set fs \<Longrightarrow> \<exists>h \<in> set fs. generateFileKey h = generateFileKey g \<and> cacheAll fs c (generateFileKey g) = Some h"
proof (induction fs arbitrary: c rule: rev_induct)
  case Nil
  then show ?case by simp
next
  case (snoc x xs)
  show ?case
  proof (cases "generateFileKey x = generateFileKey g")
    case True
    then show ?thesis by auto
  next
    case False
    with snoc.prems have "g \<in> set xs" by auto
    from snoc.IH [OF this, of c] False show ?thesis by auto
  qed
qed

lemma cacheAll_dom: "dom (cacheAll fs c) = dom c \<union> generateFileKey ` set fs"
  by (induction fs arbitrary: c) auto

lemma handleFileSelection_frame:
  "handleFileSelection u files = (u', actions) \<Longrightarrow>
     config u' = config u \<and> defaultUploadOptions u' = defaultUploadOptions u \<and> inputElement u' = inputElement u"
  by (auto simp: handleFileSelection_def Let_def)

lemma megabyteUploader_limit: "sizeLimit megabyteUploader = Some 1048576"
  by (simp add: megabyteUploader_def new_Uploader_def mergeConfig_def emptyConfig_def sizeLimit_def)

lemma megabyteUploader_maxSize: "get (maxSize (config megabyteUploader)) = Some 1048576"
  by (simp add: megabyteUploader_def new_Uploader_def mergeConfig_def emptyConfig_def)

lemma megabyte_within [simp]:
  "withinLimit megabyteUploader report" "withinLimit megabyteUploader reportAgain"
  "\<not> withinLimit megabyteUploader video"
  by (simp_all add: withinLimit_def megabyteUploader_limit report_def reportAgain_def video_def)

lemma sample_keys [simp]:
  "generateFileKey reportAgain = generateFileKey report"
  "generateFileKey video \<noteq> generateFileKey report"
  by (simp_all add: generateFileKey_def report_def reportAgain_def video_def)

lemma sample_files_differ [simp]: "reportAgain \<noteq> report" "video \<noteq> report" "video \<noteq> reportAgain"
  by (simp_all add: report_def reportAgain_def video_def)

text \<open>
  C3. Every file of a batch whose byte size is at or under the configured max size is in
  the payload of the select event, and after the selection the cache has an entry under
  its derived key: the file itself, unless another file of the batch within the limit has
  the same key (the last of them is the entry then). Each batch emits exactly one select
  event, whose payload is the list of the files within the limit, also when that list is
  empty.
\<close>

theorem C3_selection_keeps_files_within_limit:
  assumes sel: "handleFileSelection u files = (u', actions)"
  shows "payloads select actions = [FileList (filter (withinLimit u) files)] \<and>
    (\<forall>f \<in> set files. \<forall>m. get (maxSize (config u)) = Some m \<and> int (fsize f) \<le> m \<longrightarrow>
       f \<in> set (filter (withinLimit u) files) \<and>
       (\<exists>g \<in> set files. withinLimit u g \<and> generateFileKey g = generateFileKey f \<and>
          fileCache u' (generateFileKey f) = Some g) \<and>
       ((\<forall>g \<in> set files. withinLimit u g \<and> generateFileKey g = generateFileKey f \<longrightarrow> g = f) \<longrightarrow>
          fileCache u' (generateFileKey f) = Some f))"
proof -
  let ?valid = "filter (withinLimit u) files"
  from sel have acts: "payloads select actions = [FileList ?valid]"
    by (auto simp: handleFileSelection_def Let_def)
  from sel have cache: "fileCache u' = cacheAll ?valid (fileCache u)"
    by (auto simp: handleFileSelection_def Let_def)
  have each: "f \<in> set ?valid \<and>
       (\<exists>g \<in> set files. withinLimit u g \<and> generateFileKey g = generateFileKey f \<and>
          fileCache u' (generateFileKey f) = Some g) \<and>
       ((\<forall>g \<in> set files. withinLimit u g \<and> generateFileKey g = generateFileKey f \<longrightarrow> g = f) \<longrightarrow>
          fileCache u' (generateFileKey f) = Some f)"
    if f: "f \<in> set files" and m: "get (maxSize (config u)) = Some m" and le: "int (fsize f) \<le> m" for f m
  proof -
    from m le have ok: "withinLimit u f"
      by (simp add: withinLimit_def sizeLimit_def)
    with f have v: "f \<in> set ?valid" by simp
    from cacheAll_hit [OF v, of "fileCache u"] cache
    obtain h where h: "h \<in> set ?valid" "generateFileKey h = generateFileKey f"
      "fileCache u' (generateFileKey f) = Some h" by auto
    then show ?thesis using v by auto
  qed
  from acts each show ?thesis by blast
qed

theorem C3_witness:
  "payloads select (snd (handleFileSelection megabyteUploader [report, video])) = [FileList [report]]
   \<and> get (maxSize (config megabyteUploader)) = Some 1048576 \<and> int (fsize report) \<le> 1048576
   \<and> fileCache (fst (handleFileSelection megabyteUploader [report, video])) (generateFileKey report)
       = Some report"
  using C3_selection_keeps_files_within_limit
    [of megabyteUploader "[report, video]" "fst (handleFileSelection megabyteUploader [report, video])"
      "snd (handleFileSelection megabyteUploader [report, video])"]
  by (simp add: megabyteUploader_maxSize report_def)

text \<open>
  C4, amended. When the configured max size is a number other than 0, every file of a
  batch whose byte size exceeds it is left out of the payload of the select event and is
  not put into the cache, and the batch emits exactly one error event, with the fixed
  message, if at least one file was dropped and none otherwise. The selection is a total
  function: nothing is thrown.
\<close>

theorem C4_selection_drops_oversized_files:
  assumes sel: "handleFileSelection u files = (u', actions)"
    and m: "get (maxSize (config u)) = Some m" and nz: "m \<noteq> 0"
  shows "payloads select actions = [FileList (filter (withinLimit u) files)] \<and>
    (\<forall>f \<in> set files. m < int (fsize f) \<longrightarrow>
       f \<notin> set (filter (withinLimit u) files) \<and>
       (\<forall>k. fileCache u' k = Some f \<longrightarrow> fileCache u k = Some f)) \<and>
    payloads error actions =
      (if \<exists>f \<in> set files. m < int (fsize f) then [Text oversizeMessage] else [])"
proof -
  let ?valid = "filter (withinLimit u) files"
  from m nz have lim: "withinLimit u f \<longleftrightarrow> int (fsize f) \<le> m" for f
    by (simp add: withinLimit_def sizeLimit_def)
  from sel have sel_ev: "payloads select actions = [FileList ?valid]"
    by (auto simp: handleFileSelection_def Let_def)
  from sel have cache: "fileCache u' = cacheAll ?valid (fileCache u)"
    by (auto simp: handleFileSelection_def Let_def)
  have dropped: "f \<notin> set ?valid \<and> (\<forall>k. fileCache u' k = Some f \<longrightarrow> fileCache u k = Some f)"
    if "m < int (fsize f)" for f
  proof -
    from that lim have no: "f \<notin> set ?valid" by simp
    then show ?thesis using cache cacheAll_from_batch [of ?valid "fileCache u" _ f] by auto
  qed
  have len: "length ?valid \<noteq> length files \<longleftrightarrow> (\<exists>f \<in> set files. m < int (fsize f))"
  proof -
    have "length ?valid = length files \<longleftrightarrow> (\<forall>f \<in> set files. withinLimit u f)"
      by (metis filter_id_conv length_filter_le filter_True length_filter_less less_irrefl le_neq_implies_less)
    then show ?thesis using lim by (auto simp: not_le)
  qed
  from sel have err_ev: "payloads error actions =
      (if length ?valid \<noteq> length files then [Text oversizeMessage] else [])"
    by (auto simp: handleFileSelection_def Let_def)
  with len have "payloads error actions =
      (if \<exists>f \<in> set files. m < int (fsize f) then [Text oversizeMessage] else [])"
    by simp
  with sel_ev dropped show ?thesis by blast
qed

theorem C4_witness:
  "get (maxSize (config megabyteUploader)) = Some 1048576 \<and> (1048576 :: int) \<noteq> 0
   \<and> 1048576 < int (fsize video)
   \<and> payloads select (snd (handleFileSelection megabyteUploader [report, video])) = [FileList [report]]
   \<and> fileCache (fst (handleFileSelection megabyteUploader [report, video])) (generateFileKey video) = None
   \<and> payloads error (snd (handleFileSelection megabyteUploader [report, video])) = [Text oversizeMessage]"
  using C4_selection_drops_oversized_files
    [of megabyteUploader "[report, video]" "fst (handleFileSelection megabyteUploader [report, video])"
      "snd (handleFileSelection megabyteUploader [report, video])" 1048576]
  by (simp add: megabyteUploader_maxSize handleFileSelection_def cacheAll_other)
    (simp add: video_def megabyteUploader_def new_Uploader_def)

text \<open>
  C4 as stated fails when the configured max size is 0: the limit is then
  \<open>0 || Infinity\<close>, a file of 12 bytes passes the filter, is cached and selected, and
  no error event is emitted.
\<close>

theorem C4_counterexample:
  "get (maxSize (config zeroLimitUploader)) = Some 0 \<and> 0 < int (fsize report)
   \<and> payloads select (snd (handleFileSelection zeroLimitUploader [report])) = [FileList [report]]
   \<and> fileCache (fst (handleFileSelection zeroLimitUploader [report])) (generateFileKey report) = Some report
   \<and> payloads error (snd (handleFileSelection zeroLimitUploader [report])) = []"
  by (simp add: zeroLimitUploader_def new_Uploader_def mergeConfig_def emptyConfig_def
      handleFileSelection_def withinLimit_def sizeLimit_def report_def)

text \<open>
  C7. The derived key depends on the name, the byte size and the last-modified time only.
  When a file is selected and a file with the same three values is selected later (the
  only one of its batch with that key), the two keys are equal, the first selection has
  put an entry under the key and the second selection has replaced it: the cache, a map,
  holds the second file under the key.
\<close>

theorem C7_same_file_same_key:
  assumes same: "name f = name g" "fsize f = fsize g" "lastModified f = lastModified g"
    and f: "f \<in> set first_batch" and g: "g \<in> set second_batch" and ok: "withinLimit u g"
    and only: "\<forall>h \<in> set second_batch. withinLimit u h \<and> generateFileKey h = generateFileKey g \<longrightarrow> h = g"
    and s1: "handleFileSelection u first_batch = (u_first, first_actions)"
    and s2: "handleFileSelection u_first second_batch = (u_second, second_actions)"
  shows "generateFileKey f = generateFileKey g \<and>
    fileCache u_first (generateFileKey f) \<noteq> None \<and>
    fileCache u_second (generateFileKey f) = Some g"
proof -
  from same have key: "generateFileKey f = generateFileKey g"
    by (simp add: generateFileKey_def)
  from s1 have cfg: "config u_first = config u"
    by (rule handleFileSelection_frame [THEN conjunct1])
  then have lim: "withinLimit u_first = withinLimit u"
    by (auto simp: withinLimit_def sizeLimit_def fun_eq_iff)
  from same ok have okf: "withinLimit u f"
    by (simp add: withinLimit_def split: option.splits)
  from s1 have c1: "fileCache u_first = cacheAll (filter (withinLimit u) first_batch) (fileCache u)"
    by (auto simp: handleFileSelection_def Let_def)
  from s2 lim have c2: "fileCache u_second = cacheAll (filter (withinLimit u) second_batch) (fileCache u_first)"
    by (auto simp: handleFileSelection_def Let_def)
  from f okf have "f \<in> set (filter (withinLimit u) first_batch)" by simp
  from cacheAll_hit [OF this, of "fileCache u"] c1
  have first: "fileCache u_first (generateFileKey f) \<noteq> None" by auto
  from g ok have "g \<in> set (filter (withinLimit u) second_batch)" by simp
  from cacheAll_hit [OF this, of "fileCache u_first"] c2
  obtain h where "h \<in> set (filter (withinLimit u) second_batch)" "generateFileKey h = generateFileKey g"
    "fileCache u_second (generateFileKey g) = Some h" by auto
  with only have "fileCache u_second (generateFileKey g) = Some g" by auto
  with key first show ?thesis by simp
qed

theorem C7_witness:
  "name report = name reportAgain \<and> fsize report = fsize reportAgain
   \<and> lastModified report = lastModified reportAgain \<and> report \<noteq> reportAgain
   \<and> withinLimit megabyteUploader reportAgain
   \<and> generateFileKey report = generateFileKey reportAgain
   \<and> fileCache (fst (handleFileSelection megabyteUploader [report])) (generateFileKey report) \<noteq> None
   \<and> fileCache (fst (handleFileSelection (fst (handleFileSelection megabyteUploader [report]))
          [reportAgain, video])) (generateFileKey report) = Some reportAgain"
proof -
  let ?first = "handleFileSelection megabyteUploader [report]"
  let ?second = "handleFileSelection (fst ?first) [reportAgain, video]"
  have same: "name report = name reportAgain" "fsize report = fsize reportAgain"
    "lastModified report = lastModified reportAgain"
    by (simp_all add: reportAgain_def)
  have only: "\<forall>h \<in> set [reportAgain, video].
      withinLimit megabyteUploader h \<and> generateFileKey h = generateFileKey reportAgain \<longrightarrow> h = reportAgain"
    by simp
  have "generateFileKey report = generateFileKey reportAgain \<and>
    fileCache (fst ?first) (generateFileKey report) \<noteq> None \<and>
    fileCache (fst ?second) (generateFileKey report) = Some reportAgain"
    by (rule C7_same_file_same_key
          [where first_batch = "[report]" and first_actions = "snd ?first" and second_actions = "snd ?second",
            OF same _ _ _ only])
      simp_all
  with same show ?thesis
    using sample_files_differ(1) [symmetric] megabyte_within(2) by simp
qed

section \<open>Properties of upload\<close>

lemma calls_simps [simp]:
  "calls [] = []"
  "calls (a # as) = (if isCall a then a # calls as else calls as)"
  "calls (as @ bs) = calls as @ calls bs"
  by (simp_all add: calls_def)

lemma backoffs_simps [simp]:
  "backoffs [] = []"
  "backoffs (a # as) = backoff a @ backoffs as"
  "backoffs (as @ bs) = backoffs as @ backoffs bs"
  by (simp_all add: backoffs_def)

lemma isCall_emitEvent [simp]: "\<not> isCall (emitEvent t p)"
  by (simp add: emitEvent_def)

lemma backoff_emitEvent [simp]: "backoff (emitEvent t p) = []"
  by (simp add: emitEvent_def)

lemma isCall_uploadCall [simp]: "isCall (uploadCall u f opts)"
  by (simp add: uploadCall_def split: option.splits)

lemma backoff_uploadCall [simp]: "backoff (uploadCall u f opts) = []"
  by (simp add: uploadCall_def split: option.splits)

lemma payloads_uploadCall [simp]: "payloads t (uploadCall u f opts # as) = payloads t as"
  by (simp add: uploadCall_def split: option.splits)

lemma fst_uploadFunction [simp]: "fst (uploadFunction net u f opts n) = [uploadCall u f opts]"
  by (simp add: uploadFunction_def uploadCall_def defaultUploader_def Let_def split: option.splits)

lemma raceTimer_observed [simp]:
  "calls (raceTimer u oc) = []" "backoffs (raceTimer u oc) = []" "payloads t (raceTimer u oc) = []"
  by (cases oc; simp)+

lemma canRetry_iff: "get (maxRetries (config u)) = Some (int N) \<Longrightarrow> canRetry u r \<longleftrightarrow> r < N"
  by (simp add: canRetry_def)

lemma attemptUpload_success:
  assumes "race (snd (uploadFunction net u f opts r)) = Inr v"
  shows "attemptUpload net u f opts k r =
    (u\<lparr>fileCache := (fileCache u)(k := None)\<rparr>,
     uploadCall u f opts # raceTimer u (snd (uploadFunction net u f opts r)) @ [emitEvent success (Any v)],
     Resolved v)"
  using assms fst_uploadFunction [of net u f opts r]
  by (subst attemptUpload.simps) (simp add: split_beta del: fst_uploadFunction)

lemma attemptUpload_exhausted:
  assumes "race (snd (uploadFunction net u f opts r)) = Inl e" and "\<not> canRetry u r"
  shows "attemptUpload net u f opts k r =
    (u,
     uploadCall u f opts # raceTimer u (snd (uploadFunction net u f opts r)) @ [emitEvent error (Any e)],
     Rejected e)"
  using assms fst_uploadFunction [of net u f opts r]
  by (subst attemptUpload.simps) (simp add: split_beta del: fst_uploadFunction)

lemma attemptUpload_retry:
  assumes "race (snd (uploadFunction net u f opts r)) = Inl e" and "canRetry u r"
  shows "attemptUpload net u f opts k r =
    (fst (attemptUpload net u f opts k (Suc r)),
     uploadCall u f opts # raceTimer u (snd (uploadFunction net u f opts r))
       @ [emitEvent error (Any e), emitEvent retry (RetryInfo (Suc r) e), BackoffTimer (1000 * Suc r)]
       @ fst (snd (attemptUpload net u f opts k (Suc r))),
     snd (snd (attemptUpload net u f opts k (Suc r))))"
  using assms fst_uploadFunction [of net u f opts r]
  by (subst attemptUpload.simps) (simp add: split_beta del: fst_uploadFunction)

lemma attemptUpload_induct [case_names attempt]:
  assumes step: "\<And>r. (\<And>e. race (snd (uploadFunction net u f opts r)) = Inl e \<Longrightarrow> canRetry u r \<Longrightarrow> P (Suc r)) \<Longrightarrow> P r"
  shows "P r"
proof (induction "case get (maxRetries (config u)) of None \<Rightarrow> 0 | Some n \<Rightarrow> nat (n - int r)"
    arbitrary: r rule: less_induct)
  case less
  show ?case
  proof (rule step)
    fix e
    assume "canRetry u r"
    then have "(case get (maxRetries (config u)) of None \<Rightarrow> 0 | Some n \<Rightarrow> nat (n - int (Suc r)))
        < (case get (maxRetries (config u)) of None \<Rightarrow> 0 | Some n \<Rightarrow> nat (n - int r))"
      by (auto simp: canRetry_def split: option.splits)
    then show "P (Suc r)" by (rule less)
  qed
qed

lemma attemptUpload_all_fail:
  assumes N: "get (maxRetries (config u)) = Some (int N)"
    and fail: "\<And>k. r \<le> k \<Longrightarrow> k \<le> N \<Longrightarrow>
        race (snd (uploadFunction net u f opts k)) = Inl (errs k) \<and>
        raceTimer u (snd (uploadFunction net u f opts k)) = [RaceTimer T]"
    and r: "r \<le> N"
  shows "attemptUpload net u f opts key r =
    (u,
     concat (map (\<lambda>k. [uploadCall u f opts, RaceTimer T, emitEvent error (Any (errs k)),
                        emitEvent retry (RetryInfo (Suc k) (errs k)), BackoffTimer (1000 * Suc k)]) [r..<N])
       @ [uploadCall u f opts, RaceTimer T, emitEvent error (Any (errs N))],
     Rejected (errs N))"
  using r fail
proof (induction "N - r" arbitrary: r)
  case 0
  then have "r = N" by simp
  moreover from 0 have "race (snd (uploadFunction net u f opts N)) = Inl (errs N)"
    "raceTimer u (snd (uploadFunction net u f opts N)) = [RaceTimer T]"
    by auto
  moreover have "\<not> canRetry u N" using N by (simp add: canRetry_iff)
  ultimately show ?case
    by (simp add: attemptUpload_exhausted)
next
  case (Suc d)
  then have lt: "r < N" by simp
  from Suc.prems have here: "race (snd (uploadFunction net u f opts r)) = Inl (errs r)"
    "raceTimer u (snd (uploadFunction net u f opts r)) = [RaceTimer T]"
    by auto
  from lt N have can: "canRetry u r" by (simp add: canRetry_iff)
  have "d = N - Suc r" using Suc.hyps(2) by simp
  moreover have "Suc r \<le> N" using lt by simp
  ultimately have rest: "attemptUpload net u f opts key (Suc r) =
    (u,
     concat (map (\<lambda>k. [uploadCall u f opts, RaceTimer T, emitEvent error (Any (errs k)),
                        emitEvent retry (RetryInfo (Suc k) (errs k)), BackoffTimer (1000 * Suc k)]) [Suc r..<N])
       @ [uploadCall u f opts, RaceTimer T, emitEvent error (Any (errs N))],
     Rejected (errs N))"
    using Suc.prems(2) by (intro Suc.hyps(1)) auto
  from lt have upt: "[r..<N] = r # [Suc r..<N]" by (rule upt_conv_Cons)
  show ?case
    by (simp add: attemptUpload_retry [OF here(1) can] here(2) rest upt)
qed

lemma attemptUpload_frame:
  "config (fst (attemptUpload net u f opts key r)) = config u \<and>
   defaultUploadOptions (fst (attemptUpload net u f opts key r)) = defaultUploadOptions u \<and>
   inputElement (fst (attemptUpload net u f opts key r)) = inputElement u \<and>
   (case snd (snd (attemptUpload net u f opts key r)) of
      Rejected e \<Rightarrow> fst (attemptUpload net u f opts key r) = u
    | Resolved v \<Rightarrow> fst (attemptUpload net u f opts key r) = u\<lparr>fileCache := (fileCache u)(key := None)\<rparr>)"
proof (induction r rule: attemptUpload_induct [where net = net and u = u and f = f and opts = opts])
  case (attempt r)
  show ?case
  proof (cases "race (snd (uploadFunction net u f opts r))")
    case (Inr v)
    then show ?thesis by (simp add: attemptUpload_success)
  next
    case (Inl e)
    show ?thesis
    proof (cases "canRetry u r")
      case True
      have same: "fst (attemptUpload net u f opts key r) = fst (attemptUpload net u f opts key (Suc r))"
        "snd (snd (attemptUpload net u f opts key r)) = snd (snd (attemptUpload net u f opts key (Suc r)))"
        by (simp_all add: attemptUpload_retry [OF Inl True])
      show ?thesis
        unfolding same by (rule attempt [OF Inl True])
    next
      case False
      then show ?thesis by (simp add: attemptUpload_exhausted [OF Inl False])
    qed
  qed
qed

lemma attemptUpload_no_progress:
  "payloads progress (fst (snd (attemptUpload net u f opts key r))) = []"
proof (induction r rule: attemptUpload_induct [where net = net and u = u and f = f and opts = opts])
  case (attempt r)
  show ?case
  proof (cases "race (snd (uploadFunction net u f opts r))")
    case (Inr v)
    then show ?thesis by (simp add: attemptUpload_success)
  next
    case (Inl e)
    show ?thesis
    proof (cases "canRetry u r")
      case True
      from attempt [OF Inl True] show ?thesis
        by (simp add: attemptUpload_retry [OF Inl True])
    next
      case False
      then show ?thesis by (simp add: attemptUpload_exhausted [OF Inl False])
    qed
  qed
qed

lemma attemptUpload_calls:
  "\<exists>n. calls (fst (snd (attemptUpload net u f opts key r))) = replicate (Suc n) (uploadCall u f opts)"
proof (induction r rule: attemptUpload_induct [where net = net and u = u and f = f and opts = opts])
  case (attempt r)
  show ?case
  proof (cases "race (snd (uploadFunction net u f opts r))")
    case (Inr v)
    then have "calls (fst (snd (attemptUpload net u f opts key r))) = replicate (Suc 0) (uploadCall u f opts)"
      by (simp add: attemptUpload_success)
    then show ?thesis by blast
  next
    case (Inl e)
    show ?thesis
    proof (cases "canRetry u r")
      case True
      from attempt [OF Inl True] obtain n where
        "calls (fst (snd (attemptUpload net u f opts key (Suc r)))) = replicate (Suc n) (uploadCall u f opts)"
        by blast
      then have "calls (fst (snd (attemptUpload net u f opts key r))) = replicate (Suc (Suc n)) (uploadCall u f opts)"
        by (simp add: attemptUpload_retry [OF Inl True])
      then show ?thesis by blast
    next
      case False
      then have "calls (fst (snd (attemptUpload net u f opts key r))) = replicate (Suc 0) (uploadCall u f opts)"
        by (simp add: attemptUpload_exhausted [OF Inl False])
      then show ?thesis by blast
    qed
  qed
qed

lemma dispatchProgress_unsent [simp]:
  "dispatchProgress (new_XMLHttpRequest\<lparr>onprogress := h\<rparr>) native = []"
  by (simp add: dispatchProgress_def new_XMLHttpRequest_def)

lemma upload_eq:
  "upload net native u f uploadOptions =
     attemptUpload net u f (mergedOptions u uploadOptions) (generateFileKey f) 0"
  by (simp add: upload_def uploadWithProgress_def Let_def split_beta)

lemma rounds_observed:
  "calls (concat (map (\<lambda>k. [uploadCall u f opts, RaceTimer T, emitEvent error (Any (errs k)),
      emitEvent retry (RetryInfo (Suc k) (errs k)), BackoffTimer (1000 * Suc k)]) [r..<N]))
     = replicate (N - r) (uploadCall u f opts)"
  "payloads retry (concat (map (\<lambda>k. [uploadCall u f opts, RaceTimer T, emitEvent error (Any (errs k)),
      emitEvent retry (RetryInfo (Suc k) (errs k)), BackoffTimer (1000 * Suc k)]) [r..<N]))
     = map (\<lambda>k. RetryInfo (Suc k) (errs k)) [r..<N]"
  "backoffs (concat (map (\<lambda>k. [uploadCall u f opts, RaceTimer T, emitEvent error (Any (errs k)),
      emitEvent retry (RetryInfo (Suc k) (errs k)), BackoffTimer (1000 * Suc k)]) [r..<N]))
     = map (\<lambda>k. 1000 * Suc k) [r..<N]"
  by (induction N) (simp_all add: Suc_diff_le replicate_append_same del: mult_Suc_right)

text \<open>
  C1. When the configured \<open>maxRetries\<close> is the number N and the chosen upload function
  rejects at each of the attempts 0 to N, \<open>upload\<close> calls it N + 1 times. Each of the
  first N attempts is followed by the error event, the retry event with the number of the
  retry (1 to N) and the error of that attempt, and a backoff timer of 1000 times that
  number, before the next call. The last attempt is followed by its error event only, and
  the promise is rejected with the error of the last attempt. The uploader is unchanged.
\<close>

theorem C1_always_rejecting_upload:
  assumes N: "get (maxRetries (config u)) = Some (int N)"
    and rejects: "\<forall>k \<le> N. snd (uploadFunction net u f (mergedOptions u uploadOptions) k) = Rejects (errs k)"
  shows "fst (snd (upload net native u f uploadOptions)) =
      concat (map (\<lambda>k.
          [case get (customUploader (config u)) of
             Some custom \<Rightarrow> Invoke f (mergedOptions u uploadOptions)
           | None \<Rightarrow> Fetch (fetchRequest f (Some (mergedOptions u uploadOptions))),
           RaceTimer (get (timeout (config u))),
           emitEvent error (Any (errs k)),
           emitEvent retry (RetryInfo (Suc k) (errs k)),
           BackoffTimer (1000 * Suc k)]) [0..<N])
      @ [case get (customUploader (config u)) of
           Some custom \<Rightarrow> Invoke f (mergedOptions u uploadOptions)
         | None \<Rightarrow> Fetch (fetchRequest f (Some (mergedOptions u uploadOptions))),
         RaceTimer (get (timeout (config u))),
         emitEvent error (Any (errs N))]
    \<and> length (calls (fst (snd (upload net native u f uploadOptions)))) = N + 1
    \<and> payloads retry (fst (snd (upload net native u f uploadOptions)))
        = map (\<lambda>k. RetryInfo (Suc k) (errs k)) [0..<N]
    \<and> backoffs (fst (snd (upload net native u f uploadOptions))) = map (\<lambda>k. 1000 * Suc k) [0..<N]
    \<and> snd (snd (upload net native u f uploadOptions)) = Rejected (errs N)
    \<and> fst (upload net native u f uploadOptions) = u"
proof -
  let ?opts = "mergedOptions u uploadOptions"
  have fail: "race (snd (uploadFunction net u f ?opts k)) = Inl (errs k) \<and>
      raceTimer u (snd (uploadFunction net u f ?opts k)) = [RaceTimer (get (timeout (config u)))]"
    if "0 \<le> k" "k \<le> N" for k
    using rejects that by simp
  have run: "upload net native u f uploadOptions =
    (u,
     concat (map (\<lambda>k. [uploadCall u f ?opts, RaceTimer (get (timeout (config u))),
                        emitEvent error (Any (errs k)),
                        emitEvent retry (RetryInfo (Suc k) (errs k)), BackoffTimer (1000 * Suc k)]) [0..<N])
       @ [uploadCall u f ?opts, RaceTimer (get (timeout (config u))), emitEvent error (Any (errs N))],
     Rejected (errs N))"
    unfolding upload_eq by (rule attemptUpload_all_fail [OF N fail]) simp_all
  have call: "uploadCall u f ?opts =
      (case get (customUploader (config u)) of
         Some custom \<Rightarrow> Invoke f ?opts
       | None \<Rightarrow> Fetch (fetchRequest f (Some ?opts)))"
    by (simp add: uploadCall_def)
  show ?thesis
    unfolding run call [symmetric]
    by (simp add: rounds_observed del: mult_Suc_right)
qed

theorem C1_witness:
  "get (maxRetries (config twoRetries)) = Some (int 2)
   \<and> snd (uploadFunction answering twoRetries report (mergedOptions twoRetries None) 0) = Rejects (Value 0)
   \<and> snd (uploadFunction answering twoRetries report (mergedOptions twoRetries None) 1) = Rejects (Value 1)
   \<and> snd (uploadFunction answering twoRetries report (mergedOptions twoRetries None) 2) = Rejects (Value 2)
   \<and> length (calls (fst (snd (upload answering [] twoRetries report None)))) = 3
   \<and> payloads retry (fst (snd (upload answering [] twoRetries report None)))
       = [RetryInfo 1 (Value 0), RetryInfo 2 (Value 1)]
   \<and> backoffs (fst (snd (upload answering [] twoRetries report None))) = [1000, 2000]
   \<and> snd (snd (upload answering [] twoRetries report None)) = Rejected (Value 2)"
proof -
  have N: "get (maxRetries (config twoRetries)) = Some (int 2)"
    by (simp add: twoRetries_def new_Uploader_def mergeConfig_def emptyConfig_def)
  have rejects: "\<forall>k \<le> 2. snd (uploadFunction answering twoRetries report (mergedOptions twoRetries None) k)
         = Rejects (Value k)"
    by (simp add: uploadFunction_def twoRetries_def new_Uploader_def mergeConfig_def emptyConfig_def
        rejecting_def)
  have upt: "[0..<2] = [0, Suc 0]"
    by (simp add: upt_rec)
  from C1_always_rejecting_upload [OF N rejects, of "[]", THEN conjunct2] N rejects show ?thesis
    by (simp add: upt)
qed

lemma upload_no_progress:
  "payloads progress (fst (snd (upload net native u f uploadOptions))) = []"
  by (simp add: upload_eq attemptUpload_no_progress)

lemma upload_calls:
  "\<exists>n. calls (fst (snd (upload net native u f uploadOptions)))
     = replicate (Suc n) (uploadCall u f (mergedOptions u uploadOptions))"
  unfolding upload_eq by (rule attemptUpload_calls)

lemma fresh_config [simp]:
  "get (customUploader (config (new_Uploader c))) = get (customUploader c)"
  "defaultUploadOptions (new_Uploader c)
     = \<lparr>url = Val ''/upload'', httpMethod = Val POST, headers = Absent, data = Absent\<rparr>"
  by (cases "customUploader c"; simp add: new_Uploader_def mergeConfig_def)+

lemma mergeConfig_custom [simp]: "get (customUploader (mergeConfig c)) = get (customUploader c)"
  by (cases "customUploader c"; simp add: mergeConfig_def)

lemma mergeOptions_empty [simp]: "mergeOptions base emptyOptions = base"
  by (simp add: mergeOptions_def emptyOptions_def)

lemma mergedOptions_None [simp]: "mergedOptions u None = defaultUploadOptions u"
  by (simp add: mergedOptions_def)

text \<open>
  C2. With the default transport, an upload whose transfer has a native progress event
  (50 of 100 bytes) emits no progress event at all: the request object that holds the
  progress handler is never sent, and the transport uses \<open>fetch\<close>. The run consists of
  the fetch, the race timer and the success event.
\<close>

theorem C2_default_transport_emits_no_progress:
  "get (customUploader (config (new_Uploader emptyConfig))) = None
   \<and> onprogressHandler halfway
       = [emitEvent progress (ProgressInfo 100 50 (Finite 50)) :: nat action]
   \<and> fst (snd (upload answering [halfway] (new_Uploader emptyConfig) report None))
       = [Fetch \<lparr>address = ''/upload'', verb = POST, head = None, body = [(''file'', Blob report)]\<rparr>,
          RaceTimer (Some 30000),
          emitEvent success (Any (Value 200))]
   \<and> payloads progress (fst (snd (upload answering [halfway] (new_Uploader emptyConfig) report None)))
       = []"
proof -
  let ?u = "new_Uploader emptyConfig :: nat Uploader"
  have custom: "get (customUploader (config ?u)) = None"
    by (simp add: emptyConfig_def)
  have handler: "onprogressHandler halfway
       = [emitEvent progress (ProgressInfo 100 50 (Finite 50)) :: nat action]"
    by (simp add: onprogressHandler_def halfway_def percentComplete_def)
  have oc: "snd (uploadFunction answering ?u report (mergedOptions ?u None) 0) = Resolves (Value 200)"
    by (simp add: uploadFunction_def emptyConfig_def defaultUploader_def answering_def Let_def)
  have call: "uploadCall ?u report (mergedOptions ?u None)
      = Fetch \<lparr>address = ''/upload'', verb = POST, head = None, body = [(''file'', Blob report)]\<rparr>"
    by (simp add: uploadCall_def emptyConfig_def fetchRequest_def formData_def)
  have timer: "get (timeout (config ?u)) = Some 30000"
    by (simp add: new_Uploader_def mergeConfig_def emptyConfig_def)
  have "fst (snd (upload answering [halfway] ?u report None))
       = [Fetch \<lparr>address = ''/upload'', verb = POST, head = None, body = [(''file'', Blob report)]\<rparr>,
          RaceTimer (Some 30000),
          emitEvent success (Any (Value 200))]"
    unfolding upload_eq using oc call timer
    by (subst attemptUpload_success [where v = "Value 200"]; simp)
  with custom handler show ?thesis
    by (simp add: upload_no_progress)
qed

text \<open>
  C6. When a custom upload function was configured at construction and its first call
  resolves, \<open>upload\<close> calls it once, with the file and the merged options, starts the
  race timer, emits the success event with the result and resolves with that result. When
  no custom function was configured, every call of the run is a \<open>fetch\<close> of the
  default transport.
\<close>

theorem C6_custom_uploader_called_once:
  assumes cfg: "config u = mergeConfig c"
  shows "(\<forall>custom v. customUploader c = Val custom
            \<and> custom f (mergedOptions u uploadOptions) 0 = Resolves v \<longrightarrow>
          upload net native u f uploadOptions
            = (u\<lparr>fileCache := (fileCache u)(generateFileKey f := None)\<rparr>,
               [Invoke f (mergedOptions u uploadOptions),
                RaceTimer (get (timeout (config u))),
                emitEvent success (Any v)],
               Resolved v))
    \<and> (get (customUploader c) = None \<longrightarrow>
         (\<exists>n. calls (fst (snd (upload net native u f uploadOptions)))
            = replicate (Suc n) (Fetch (fetchRequest f (Some (mergedOptions u uploadOptions))))))"
proof (intro conjI allI impI)
  fix custom v
  assume a: "customUploader c = Val custom \<and> custom f (mergedOptions u uploadOptions) 0 = Resolves v"
  with cfg have custom: "get (customUploader (config u)) = Some custom"
    by simp
  with a have oc: "snd (uploadFunction net u f (mergedOptions u uploadOptions) 0) = Resolves v"
    by (simp add: uploadFunction_def)
  from custom have call: "uploadCall u f (mergedOptions u uploadOptions) = Invoke f (mergedOptions u uploadOptions)"
    by (simp add: uploadCall_def)
  show "upload net native u f uploadOptions
            = (u\<lparr>fileCache := (fileCache u)(generateFileKey f := None)\<rparr>,
               [Invoke f (mergedOptions u uploadOptions),
                RaceTimer (get (timeout (config u))),
                emitEvent success (Any v)],
               Resolved v)"
    unfolding upload_eq using oc call
    by (subst attemptUpload_success [where v = v]; simp)
next
  assume "get (customUploader c) = None"
  with cfg have "uploadCall u f (mergedOptions u uploadOptions)
      = Fetch (fetchRequest f (Some (mergedOptions u uploadOptions)))"
    by (simp add: uploadCall_def)
  with upload_calls [of net native u f uploadOptions]
  show "\<exists>n. calls (fst (snd (upload net native u f uploadOptions)))
            = replicate (Suc n) (Fetch (fetchRequest f (Some (mergedOptions u uploadOptions))))"
    by simp
qed

theorem C6_witness:
  "config (new_Uploader customConfig) = mergeConfig customConfig
   \<and> customUploader customConfig = Val customOnce
   \<and> customOnce report (mergedOptions (new_Uploader customConfig) None) 0 = Resolves (Value 7)
   \<and> fst (snd (upload answering [] (new_Uploader customConfig) report None))
       = [Invoke report \<lparr>url = Val ''/upload'', httpMethod = Val POST, headers = Absent, data = Absent\<rparr>,
          RaceTimer (Some 30000), emitEvent success (Any (Value 7))]
   \<and> snd (snd (upload answering [] (new_Uploader customConfig) report None)) = Resolved (Value 7)
   \<and> get (customUploader (emptyConfig :: nat UploadConfig)) = None
   \<and> hd (calls (fst (snd (upload answering [] (new_Uploader emptyConfig) report None))))
       = Fetch \<lparr>address = ''/upload'', verb = POST, head = None, body = [(''file'', Blob report)]\<rparr>"
proof -
  have cfg: "config (new_Uploader c) = mergeConfig c" for c :: "nat UploadConfig"
    by (simp add: new_Uploader_def)
  have timer: "get (timeout (config (new_Uploader customConfig))) = Some 30000"
    by (simp add: new_Uploader_def mergeConfig_def customConfig_def emptyConfig_def)
  have custom: "customUploader customConfig = Val customOnce"
    by (simp add: customConfig_def)
  have once: "customOnce report (mergedOptions (new_Uploader customConfig) None) 0 = Resolves (Value 7)"
    by (simp add: customOnce_def)
  have none: "get (customUploader (emptyConfig :: nat UploadConfig)) = None"
    by (simp add: emptyConfig_def)
  have req: "fetchRequest report (Some (mergedOptions (new_Uploader emptyConfig) None))
      = \<lparr>address = ''/upload'', verb = POST, head = None, body = [(''file'', Blob report)]\<rparr>"
    by (simp add: fetchRequest_def formData_def)
  from C6_custom_uploader_called_once [OF cfg, of customConfig report None answering "[]", THEN conjunct1]
    custom once
  have "upload answering [] (new_Uploader customConfig) report None
      = ((new_Uploader customConfig)\<lparr>fileCache := (fileCache (new_Uploader customConfig))(generateFileKey report := None)\<rparr>,
         [Invoke report (mergedOptions (new_Uploader customConfig) None),
          RaceTimer (get (timeout (config (new_Uploader customConfig)))),
          emitEvent success (Any (Value 7))],
         Resolved (Value 7))"
    by blast
  moreover
  from C6_custom_uploader_called_once [OF cfg, of emptyConfig report None answering "[]", THEN conjunct2]
    none req
  have "hd (calls (fst (snd (upload answering [] (new_Uploader emptyConfig) report None))))
       = Fetch \<lparr>address = ''/upload'', verb = POST, head = None, body = [(''file'', Blob report)]\<rparr>"
    by auto
  ultimately show ?thesis
    using cfg custom once none timer by simp
qed

lemma upload_frame:
  "config (fst (upload net native u f uploadOptions)) = config u"
  "defaultUploadOptions (fst (upload net native u f uploadOptions)) = defaultUploadOptions u"
  "inputElement (fst (upload net native u f uploadOptions)) = inputElement u"
  unfolding upload_eq using attemptUpload_frame [of net u f "mergedOptions u uploadOptions" "generateFileKey f" 0]
  by simp_all

lemma attemptUpload_cache:
  "fileCache (fst (attemptUpload net u f opts key r))
     = (case snd (snd (attemptUpload net u f opts key r)) of
          Rejected e \<Rightarrow> fileCache u
        | Resolved v \<Rightarrow> (fileCache u)(key := None))"
  using attemptUpload_frame [of net u f opts key r]
  by (auto split: settled.splits)

text \<open>
  C10. A fresh uploader has the default upload options \<open>{method: 'POST', url: '/upload'}\<close>,
  and when no custom uploader was configured, every call made by \<open>upload\<close> with no
  per-call options on the fresh uploader is a \<open>fetch\<close> of the address \<open>/upload\<close> with
  the method POST, no headers, and a body that holds the file alone.
\<close>

theorem C10_fresh_uploader_posts_to_upload:
  "defaultUploadOptions (new_Uploader c)
     = \<lparr>url = Val ''/upload'', httpMethod = Val POST, headers = Absent, data = Absent\<rparr>
   \<and> (get (customUploader c) = None \<longrightarrow>
        (\<exists>n. calls (fst (snd (upload net native (new_Uploader c) f None)))
           = replicate (Suc n)
               (Fetch \<lparr>address = ''/upload'', verb = POST, head = None, body = [(''file'', Blob f)]\<rparr>)))"
proof (intro conjI impI)
  show "defaultUploadOptions (new_Uploader c)
     = \<lparr>url = Val ''/upload'', httpMethod = Val POST, headers = Absent, data = Absent\<rparr>"
    by simp
next
  assume "get (customUploader c) = None"
  then have "uploadCall (new_Uploader c) f (mergedOptions (new_Uploader c) None)
      = Fetch \<lparr>address = ''/upload'', verb = POST, head = None, body = [(''file'', Blob f)]\<rparr>"
    by (simp add: uploadCall_def fetchRequest_def formData_def)
  with upload_calls [of net native "new_Uploader c" f None]
  show "\<exists>n. calls (fst (snd (upload net native (new_Uploader c) f None)))
           = replicate (Suc n)
               (Fetch \<lparr>address = ''/upload'', verb = POST, head = None, body = [(''file'', Blob f)]\<rparr>)"
    by simp
qed

theorem C10_witness:
  "get (customUploader (emptyConfig\<lparr>maxRetries := Val 1\<rparr>)) = None
   \<and> set (calls (fst (snd (upload unreachable [] (new_Uploader (emptyConfig\<lparr>maxRetries := Val 1\<rparr>)) logo None))))
       = {Fetch \<lparr>address = ''/upload'', verb = POST, head = None, body = [(''file'', Blob logo)]\<rparr>}"
proof -
  have none: "get (customUploader (emptyConfig\<lparr>maxRetries := Val 1\<rparr>)) = None"
    by (simp add: emptyConfig_def)
  from C10_fresh_uploader_posts_to_upload
    [of "emptyConfig\<lparr>maxRetries := Val 1\<rparr>" unreachable "[]" logo, THEN conjunct2] none
  show ?thesis by auto
qed

text \<open>
  C5. Every call that \<open>upload\<close> makes of the upload function has the file and the merged
  options: the custom uploader is invoked with them, the default transport fetches the
  request built from them. The merged options are the default options when there are no
  per-call options, and otherwise hold, property by property, the per-call property if the
  per-call options have it and the default one if not. \<open>setDefaultUploadOptions\<close> merges
  its argument into the defaults the same way and changes nothing else. After
  \<open>setDefaultUploadOptions({url: '/a'})\<close>, an upload with no per-call options invokes
  the custom uploader with \<open>url: '/a'\<close>, or fetches the address \<open>/a\<close>.
\<close>

theorem C5_upload_uses_merged_options:
  "(\<exists>n. calls (fst (snd (upload net native u f uploadOptions)))
      = replicate (Suc n)
          (case get (customUploader (config u)) of
             Some custom \<Rightarrow> Invoke f (mergedOptions u uploadOptions)
           | None \<Rightarrow> Fetch (fetchRequest f (Some (mergedOptions u uploadOptions)))))
   \<and> mergedOptions u None = defaultUploadOptions u
   \<and> url (mergedOptions u (Some opts))
       = (if url opts = Absent then url (defaultUploadOptions u) else url opts)
   \<and> httpMethod (mergedOptions u (Some opts))
       = (if httpMethod opts = Absent then httpMethod (defaultUploadOptions u) else httpMethod opts)
   \<and> headers (mergedOptions u (Some opts))
       = (if headers opts = Absent then headers (defaultUploadOptions u) else headers opts)
   \<and> data (mergedOptions u (Some opts))
       = (if data opts = Absent then data (defaultUploadOptions u) else data opts)
   \<and> mergedOptions (setDefaultUploadOptions u opts) None = mergedOptions u (Some opts)
   \<and> config (setDefaultUploadOptions u opts) = config u
   \<and> fileCache (setDefaultUploadOptions u opts) = fileCache u
   \<and> (\<exists>n. calls (fst (snd (upload net native
              (setDefaultUploadOptions u (emptyOptions\<lparr>url := Val ''/a''\<rparr>)) f None)))
        = replicate (Suc n)
            (case get (customUploader (config u)) of
               Some custom \<Rightarrow> Invoke f ((defaultUploadOptions u)\<lparr>url := Val ''/a''\<rparr>)
             | None \<Rightarrow> Fetch ((fetchRequest f (Some (defaultUploadOptions u)))\<lparr>address := ''/a''\<rparr>)))"
proof -
  have spread_if: "spread base over = (if over = Absent then base else over)" for base over :: "'x optional"
    by (cases over) simp_all
  have call: "uploadCall v f o' =
      (case get (customUploader (config v)) of
         Some custom \<Rightarrow> Invoke f o'
       | None \<Rightarrow> Fetch (fetchRequest f (Some o')))" for v :: "'a Uploader" and o'
    by (simp add: uploadCall_def)
  have first: "\<exists>n. calls (fst (snd (upload net native u f uploadOptions)))
      = replicate (Suc n)
          (case get (customUploader (config u)) of
             Some custom \<Rightarrow> Invoke f (mergedOptions u uploadOptions)
           | None \<Rightarrow> Fetch (fetchRequest f (Some (mergedOptions u uploadOptions))))"
    using upload_calls [of net native u f uploadOptions] by (simp add: call)
  have fields: "url (mergedOptions u (Some opts))
       = (if url opts = Absent then url (defaultUploadOptions u) else url opts)"
    "httpMethod (mergedOptions u (Some opts))
       = (if httpMethod opts = Absent then httpMethod (defaultUploadOptions u) else httpMethod opts)"
    "headers (mergedOptions u (Some opts))
       = (if headers opts = Absent then headers (defaultUploadOptions u) else headers opts)"
    "data (mergedOptions u (Some opts))
       = (if data opts = Absent then data (defaultUploadOptions u) else data opts)"
    by (simp_all add: mergedOptions_def mergeOptions_def spread_if)
  have setd: "mergedOptions (setDefaultUploadOptions u opts) None = mergedOptions u (Some opts)"
    "config (setDefaultUploadOptions u opts) = config u"
    "fileCache (setDefaultUploadOptions u opts) = fileCache u"
    by (simp_all add: setDefaultUploadOptions_def mergedOptions_def)
  let ?v = "setDefaultUploadOptions u (emptyOptions\<lparr>url := Val ''/a''\<rparr>)"
  have merged: "mergedOptions ?v None = (defaultUploadOptions u)\<lparr>url := Val ''/a''\<rparr>"
    by (simp add: setDefaultUploadOptions_def mergeOptions_def emptyOptions_def)
  have req: "fetchRequest f (Some ((defaultUploadOptions u)\<lparr>url := Val ''/a''\<rparr>))
      = (fetchRequest f (Some (defaultUploadOptions u)))\<lparr>address := ''/a''\<rparr>"
    by (simp add: fetchRequest_def formData_def)
  have cfg: "config ?v = config u"
    by (simp add: setDefaultUploadOptions_def)
  have scenario: "\<exists>n. calls (fst (snd (upload net native ?v f None)))
        = replicate (Suc n)
            (case get (customUploader (config u)) of
               Some custom \<Rightarrow> Invoke f ((defaultUploadOptions u)\<lparr>url := Val ''/a''\<rparr>)
             | None \<Rightarrow> Fetch ((fetchRequest f (Some (defaultUploadOptions u)))\<lparr>address := ''/a''\<rparr>))"
    using upload_calls [of net native ?v f None]
    unfolding call merged cfg req .
  from first fields setd scenario show ?thesis
    by (simp only: mergedOptions_None simp_thms)
qed

theorem C5_witness:
  "set (calls (fst (snd (upload unreachable []
      (setDefaultUploadOptions (new_Uploader emptyConfig) (emptyOptions\<lparr>url := Val ''/a''\<rparr>)) logo None))))
     = {Fetch \<lparr>address = ''/a'', verb = POST, head = None, body = [(''file'', Blob logo)]\<rparr>}
   \<and> mergedOptions (new_Uploader emptyConfig) (Some (emptyOptions\<lparr>httpMethod := Val PUT\<rparr>))
       = \<lparr>url = Val ''/upload'', httpMethod = Val PUT, headers = Absent, data = Absent\<rparr>"
proof -
  let ?u = "new_Uploader emptyConfig :: nat Uploader"
  note c5 = C5_upload_uses_merged_options
    [of unreachable "[]" ?u logo None "emptyOptions\<lparr>httpMethod := Val PUT\<rparr>"]
  have none: "get (customUploader (config ?u)) = None"
    by (simp add: emptyConfig_def)
  have req: "(fetchRequest logo (Some (defaultUploadOptions ?u)))\<lparr>address := ''/a''\<rparr>
      = \<lparr>address = ''/a'', verb = POST, head = None, body = [(''file'', Blob logo)]\<rparr>"
    by (simp add: fetchRequest_def formData_def)
  from c5 none req have "set (calls (fst (snd (upload unreachable []
      (setDefaultUploadOptions ?u (emptyOptions\<lparr>url := Val ''/a''\<rparr>)) logo None))))
     = {Fetch \<lparr>address = ''/a'', verb = POST, head = None, body = [(''file'', Blob logo)]\<rparr>}"
    by auto
  moreover from c5 have "mergedOptions ?u (Some (emptyOptions\<lparr>httpMethod := Val PUT\<rparr>))
       = \<lparr>url = Val ''/upload'', httpMethod = Val PUT, headers = Absent, data = Absent\<rparr>"
    by (simp add: emptyOptions_def UploadOptions.equality)
  ultimately show ?thesis by simp
qed

lemma attemptUpload_rejected_iff:
  assumes N: "get (maxRetries (config u)) = Some (int N)" and r: "r \<le> N"
  shows "(\<exists>e. snd (snd (attemptUpload net u f opts key r)) = Rejected e) \<longleftrightarrow>
    (\<forall>k. r \<le> k \<and> k \<le> N \<longrightarrow> (\<exists>e. race (snd (uploadFunction net u f opts k)) = Inl e))"
  using r
proof (induction "N - r" arbitrary: r)
  case 0
  then have rN: "r = N" by simp
  have no: "\<not> canRetry u N" using N by (simp add: canRetry_iff)
  show ?case
  proof (cases "race (snd (uploadFunction net u f opts N))")
    case (Inl e)
    then show ?thesis
      unfolding rN by (auto simp: attemptUpload_exhausted [OF Inl no])
  next
    case (Inr v)
    then show ?thesis
      unfolding rN by (auto simp: attemptUpload_success [OF Inr])
  qed
next
  case (Suc d)
  then have lt: "r < N" by simp
  with N have can: "canRetry u r" by (simp add: canRetry_iff)
  show ?case
  proof (cases "race (snd (uploadFunction net u f opts r))")
    case (Inr v)
    have "snd (snd (attemptUpload net u f opts key r)) = Resolved v"
      by (simp add: attemptUpload_success [OF Inr])
    moreover have "\<not> (\<forall>k. r \<le> k \<and> k \<le> N \<longrightarrow> (\<exists>e. race (snd (uploadFunction net u f opts k)) = Inl e))"
      using Inr lt by (auto intro!: exI [of _ r])
    ultimately show ?thesis by simp
  next
    case (Inl e)
    have same: "snd (snd (attemptUpload net u f opts key r)) = snd (snd (attemptUpload net u f opts key (Suc r)))"
      by (simp add: attemptUpload_retry [OF Inl can])
    have "d = N - Suc r" "Suc r \<le> N" using Suc.hyps(2) lt by simp_all
    from Suc.hyps(1) [OF this]
    have ih: "(\<exists>e. snd (snd (attemptUpload net u f opts key (Suc r))) = Rejected e) \<longleftrightarrow>
      (\<forall>k. Suc r \<le> k \<and> k \<le> N \<longrightarrow> (\<exists>e. race (snd (uploadFunction net u f opts k)) = Inl e))" .
    have "(\<forall>k. r \<le> k \<and> k \<le> N \<longrightarrow> (\<exists>e. race (snd (uploadFunction net u f opts k)) = Inl e)) \<longleftrightarrow>
      (\<forall>k. Suc r \<le> k \<and> k \<le> N \<longrightarrow> (\<exists>e. race (snd (uploadFunction net u f opts k)) = Inl e))"
      using Inl by (metis Suc_leI le_neq_implies_less Suc_leD)
    with ih same show ?thesis by simp
  qed
qed

lemma race_timeoutAsRejection [simp]: "race (timeoutAsRejection oc) = race oc"
  by (cases oc) (simp_all add: timeoutAsRejection_def)

lemma raceTimer_timeoutAsRejection [simp]:
  "raceTimer (withTimeoutsAsRejections u) (timeoutAsRejection oc) = raceTimer u oc"
  by (cases oc) (simp_all add: timeoutAsRejection_def withTimeoutsAsRejections_def)

lemma get_map_optional: "get (map_optional g x) = map_option g (get x)"
  by (cases x) simp_all

lemma canRetry_withTimeouts [simp]: "canRetry (withTimeoutsAsRejections u) r = canRetry u r"
  by (simp add: canRetry_def withTimeoutsAsRejections_def)

lemma uploadCall_withTimeouts [simp]:
  "uploadCall (withTimeoutsAsRejections u) f opts = uploadCall u f opts"
  by (simp add: uploadCall_def withTimeoutsAsRejections_def get_map_optional split: option.splits)

lemma uploadFunction_withTimeouts [simp]:
  "snd (uploadFunction (\<lambda>req n. timeoutAsRejection (net req n)) (withTimeoutsAsRejections u) f opts r)
     = timeoutAsRejection (snd (uploadFunction net u f opts r))"
  by (simp add: uploadFunction_def withTimeoutsAsRejections_def get_map_optional defaultUploader_def
      Let_def split: option.splits)

lemma mergedOptions_withTimeouts [simp]:
  "mergedOptions (withTimeoutsAsRejections u) uploadOptions = mergedOptions u uploadOptions"
  by (simp add: mergedOptions_def withTimeoutsAsRejections_def)

lemma fileCache_withTimeouts: "fileCache (withTimeoutsAsRejections u) = fileCache u"
  by (simp add: withTimeoutsAsRejections_def)

lemma attemptUpload_timeoutAsRejection:
  "snd (attemptUpload (\<lambda>req n. timeoutAsRejection (net req n)) (withTimeoutsAsRejections u) f opts key r)
     = snd (attemptUpload net u f opts key r) \<and>
   fileCache (fst (attemptUpload (\<lambda>req n. timeoutAsRejection (net req n)) (withTimeoutsAsRejections u) f opts key r))
     = fileCache (fst (attemptUpload net u f opts key r))"
proof (induction r rule: attemptUpload_induct [where net = net and u = u and f = f and opts = opts])
  case (attempt r)
  let ?net = "\<lambda>req n. timeoutAsRejection (net req n)"
  let ?u = "withTimeoutsAsRejections u"
  show ?case
  proof (cases "race (snd (uploadFunction net u f opts r))")
    case (Inr v)
    then have "race (snd (uploadFunction ?net ?u f opts r)) = Inr v" by simp
    from attemptUpload_success [OF this] attemptUpload_success [OF Inr]
    show ?thesis by (simp add: fileCache_withTimeouts)
  next
    case (Inl e)
    then have Inl': "race (snd (uploadFunction ?net ?u f opts r)) = Inl e" by simp
    show ?thesis
    proof (cases "canRetry u r")
      case True
      then have True': "canRetry ?u r" by simp
      from attempt [OF Inl True] attemptUpload_retry [OF Inl' True'] attemptUpload_retry [OF Inl True]
      show ?thesis by simp
    next
      case False
      then have False': "\<not> canRetry ?u r" by simp
      from attemptUpload_exhausted [OF Inl' False'] attemptUpload_exhausted [OF Inl False]
      show ?thesis by (simp add: fileCache_withTimeouts)
    qed
  qed
qed

lemma attemptUpload_failed_step:
  assumes "race (snd (uploadFunction net u f opts r)) = Inl e"
  shows "attemptUpload net u f opts key r =
    (if canRetry u r
     then (fst (attemptUpload net u f opts key (Suc r)),
           uploadCall u f opts # raceTimer u (snd (uploadFunction net u f opts r))
             @ [emitEvent error (Any e), emitEvent retry (RetryInfo (Suc r) e), BackoffTimer (1000 * Suc r)]
             @ fst (snd (attemptUpload net u f opts key (Suc r))),
           snd (snd (attemptUpload net u f opts key (Suc r))))
     else (u,
           uploadCall u f opts # raceTimer u (snd (uploadFunction net u f opts r))
             @ [emitEvent error (Any e)],
           Rejected e))"
  by (simp add: attemptUpload_retry [OF assms] attemptUpload_exhausted [OF assms])

text \<open>
  C8, amended. A run of \<open>upload\<close> is the run of its attempts from the first on, and for
  every attempt r:
  \<^item> when the call of the upload function returns a promise, the race timer with the
    configured timeout is started right after the call; when the call throws, no timer is
    started and the attempt fails at once with the value thrown;
  \<^item> when the promise is still pending as the timer fires, the attempt fails with the
    error \<open>Upload timeout\<close>, and what follows is what follows a promise rejected with
    that error: the error event, then, if \<open>retries < maxRetries\<close>, the retry event with
    the number of the retry and the error, the backoff timer and the next attempt, and
    otherwise the rejection of the caller's promise with the error. No effect cancels the
    request;
  \<^item> when the promise resolves first, the success event follows and the caller's promise
    is resolved.
  With \<open>maxRetries = N\<close>, attempt r is retried exactly when \<open>r < N\<close>; when all attempts
  0 to N time out, the run is N rounds of call, timer, error event, retry event and
  backoff, then a last call, timer and error event, and the rejection with the timeout
  error; and the caller's promise is rejected exactly when all of the attempts 0 to N
  failed. In any run, replacing each timeout by a rejection of the upload function with the
  timeout error changes neither the effects, nor the result, nor the cache.
\<close>

theorem C8_timeout_is_handled_as_a_failure:
  "upload net native u f uploadOptions
     = attemptUpload net u f (mergedOptions u uploadOptions) (generateFileKey f) 0
   \<and> (\<forall>e. snd (uploadFunction net u f opts r) = Pending \<and> e = Error ''Upload timeout''
          \<or> snd (uploadFunction net u f opts r) = Rejects e \<longrightarrow>
        attemptUpload net u f opts key r =
          (if canRetry u r
           then (fst (attemptUpload net u f opts key (Suc r)),
                 [uploadCall u f opts,
                  RaceTimer (get (timeout (config u))),
                  emitEvent error (Any e),
                  emitEvent retry (RetryInfo (Suc r) e),
                  BackoffTimer (1000 * Suc r)]
                 @ fst (snd (attemptUpload net u f opts key (Suc r))),
                 snd (snd (attemptUpload net u f opts key (Suc r))))
           else (u,
                 [uploadCall u f opts,
                  RaceTimer (get (timeout (config u))),
                  emitEvent error (Any e)],
                 Rejected e)))
   \<and> (\<forall>e. snd (uploadFunction net u f opts r) = Throws e \<longrightarrow>
        attemptUpload net u f opts key r =
          (if canRetry u r
           then (fst (attemptUpload net u f opts key (Suc r)),
                 [uploadCall u f opts,
                  emitEvent error (Any e),
                  emitEvent retry (RetryInfo (Suc r) e),
                  BackoffTimer (1000 * Suc r)]
                 @ fst (snd (attemptUpload net u f opts key (Suc r))),
                 snd (snd (attemptUpload net u f opts key (Suc r))))
           else (u, [uploadCall u f opts, emitEvent error (Any e)], Rejected e)))
   \<and> (\<forall>v. snd (uploadFunction net u f opts r) = Resolves v \<longrightarrow>
        attemptUpload net u f opts key r =
          (u\<lparr>fileCache := (fileCache u)(key := None)\<rparr>,
           [uploadCall u f opts, RaceTimer (get (timeout (config u))), emitEvent success (Any v)],
           Resolved v))
   \<and> (get (maxRetries (config u)) = Some (int N) \<longrightarrow> (canRetry u r \<longleftrightarrow> r < N))
   \<and> (get (maxRetries (config u)) = Some (int N) \<longrightarrow>
        (\<forall>k \<le> N. snd (uploadFunction net u f (mergedOptions u uploadOptions) k) = Pending) \<longrightarrow>
        upload net native u f uploadOptions =
          (u,
           concat (map (\<lambda>k.
               [uploadCall u f (mergedOptions u uploadOptions),
                RaceTimer (get (timeout (config u))),
                emitEvent error (Any (Error ''Upload timeout'')),
                emitEvent retry (RetryInfo (Suc k) (Error ''Upload timeout'')),
                BackoffTimer (1000 * Suc k)]) [0..<N])
           @ [uploadCall u f (mergedOptions u uploadOptions),
              RaceTimer (get (timeout (config u))),
              emitEvent error (Any (Error ''Upload timeout''))],
           Rejected (Error ''Upload timeout'')))
   \<and> snd (upload (\<lambda>req n. timeoutAsRejection (net req n)) native (withTimeoutsAsRejections u) f uploadOptions)
       = snd (upload net native u f uploadOptions)
   \<and> fileCache (fst (upload (\<lambda>req n. timeoutAsRejection (net req n)) native
         (withTimeoutsAsRejections u) f uploadOptions))
       = fileCache (fst (upload net native u f uploadOptions))
   \<and> (get (maxRetries (config u)) = Some (int N) \<longrightarrow>
        ((\<exists>e. snd (snd (upload net native u f uploadOptions)) = Rejected e) \<longleftrightarrow>
         (\<forall>k \<le> N. \<exists>e. race (snd (uploadFunction net u f (mergedOptions u uploadOptions) k)) = Inl e)))"
proof -
  let ?oc = "snd (uploadFunction net u f opts r)"
  let ?next = "attemptUpload net u f opts key (Suc r)"
  let ?merged = "mergedOptions u uploadOptions"
  let ?timer = "RaceTimer (get (timeout (config u)))"
  have run: "upload net native u f uploadOptions = attemptUpload net u f ?merged (generateFileKey f) 0"
    by (rule upload_eq)
  have failed: "attemptUpload net u f opts key r =
          (if canRetry u r
           then (fst ?next,
                 [uploadCall u f opts, ?timer, emitEvent error (Any e),
                  emitEvent retry (RetryInfo (Suc r) e), BackoffTimer (1000 * Suc r)]
                 @ fst (snd ?next),
                 snd (snd ?next))
           else (u, [uploadCall u f opts, ?timer, emitEvent error (Any e)], Rejected e))"
    if "?oc = Pending \<and> e = Error ''Upload timeout'' \<or> ?oc = Rejects e" for e
  proof -
    from that have "race ?oc = Inl e" and "raceTimer u ?oc = [?timer]"
      by auto
    from attemptUpload_failed_step [OF this(1), of key] this(2) show ?thesis
      by simp
  qed
  have thrown: "attemptUpload net u f opts key r =
          (if canRetry u r
           then (fst ?next,
                 [uploadCall u f opts, emitEvent error (Any e),
                  emitEvent retry (RetryInfo (Suc r) e), BackoffTimer (1000 * Suc r)]
                 @ fst (snd ?next),
                 snd (snd ?next))
           else (u, [uploadCall u f opts, emitEvent error (Any e)], Rejected e))"
    if "?oc = Throws e" for e
  proof -
    from that have "race ?oc = Inl e" and "raceTimer u ?oc = []"
      by auto
    from attemptUpload_failed_step [OF this(1), of key] this(2) show ?thesis
      by simp
  qed
  have resolved: "attemptUpload net u f opts key r =
          (u\<lparr>fileCache := (fileCache u)(key := None)\<rparr>,
           [uploadCall u f opts, ?timer, emitEvent success (Any v)],
           Resolved v)"
    if "?oc = Resolves v" for v
  proof -
    from that have "race ?oc = Inr v" and "raceTimer u ?oc = [?timer]"
      by auto
    from attemptUpload_success [OF this(1), of key] this(2) show ?thesis
      by simp
  qed
  have budget: "canRetry u r \<longleftrightarrow> r < N" if "get (maxRetries (config u)) = Some (int N)"
    using that by (rule canRetry_iff)
  have timeouts: "upload net native u f uploadOptions =
          (u,
           concat (map (\<lambda>k.
               [uploadCall u f ?merged, ?timer,
                emitEvent error (Any (Error ''Upload timeout'')),
                emitEvent retry (RetryInfo (Suc k) (Error ''Upload timeout'')),
                BackoffTimer (1000 * Suc k)]) [0..<N])
           @ [uploadCall u f ?merged, ?timer, emitEvent error (Any (Error ''Upload timeout''))],
           Rejected (Error ''Upload timeout''))"
    if N: "get (maxRetries (config u)) = Some (int N)"
      and pending: "\<forall>k \<le> N. snd (uploadFunction net u f ?merged k) = Pending"
  proof -
    have fail: "race (snd (uploadFunction net u f ?merged k)) = Inl (Error ''Upload timeout'') \<and>
        raceTimer u (snd (uploadFunction net u f ?merged k)) = [?timer]"
      if "0 \<le> k" "k \<le> N" for k
      using pending that by simp
    show ?thesis
      unfolding upload_eq
      by (rule attemptUpload_all_fail [where errs = "\<lambda>k. Error ''Upload timeout''", OF N fail]) simp_all
  qed
  have same: "snd (upload (\<lambda>req n. timeoutAsRejection (net req n)) native (withTimeoutsAsRejections u) f uploadOptions)
       = snd (upload net native u f uploadOptions)"
    "fileCache (fst (upload (\<lambda>req n. timeoutAsRejection (net req n)) native
         (withTimeoutsAsRejections u) f uploadOptions))
       = fileCache (fst (upload net native u f uploadOptions))"
    unfolding upload_eq by (simp_all add: attemptUpload_timeoutAsRejection)
  have exhausted: "(\<exists>e. snd (snd (upload net native u f uploadOptions)) = Rejected e) \<longleftrightarrow>
         (\<forall>k \<le> N. \<exists>e. race (snd (uploadFunction net u f ?merged k)) = Inl e)"
    if N: "get (maxRetries (config u)) = Some (int N)"
    unfolding upload_eq
    using attemptUpload_rejected_iff [OF N, of 0 net f ?merged "generateFileKey f"]
    by simp
  show ?thesis
    apply (intro conjI allI impI)
            apply (rule run)
           apply (erule failed)
          apply (erule thrown)
         apply (erule resolved)
        apply (erule budget)
       apply (erule (1) timeouts)
      apply (rule same(1))
     apply (rule same(2))
    apply (erule exhausted)
    done
qed

theorem C8_witness:
  "get (maxRetries (config oneRetry)) = Some (int 1)
   \<and> snd (uploadFunction slowThenAnswering oneRetry report (mergedOptions oneRetry None) 0) = Pending
   \<and> snd (uploadFunction slowThenAnswering oneRetry report (mergedOptions oneRetry None) 1)
       = Resolves (Value 9)
   \<and> fst (snd (upload slowThenAnswering [] oneRetry report None))
       = [Fetch \<lparr>address = ''/upload'', verb = POST, head = None, body = [(''file'', Blob report)]\<rparr>,
          RaceTimer (Some 5000),
          emitEvent error (Any (Error ''Upload timeout'')),
          emitEvent retry (RetryInfo 1 (Error ''Upload timeout'')),
          BackoffTimer 1000,
          Fetch \<lparr>address = ''/upload'', verb = POST, head = None, body = [(''file'', Blob report)]\<rparr>,
          RaceTimer (Some 5000),
          emitEvent success (Any (Value 9))]
   \<and> snd (snd (upload slowThenAnswering [] oneRetry report None)) = Resolved (Value 9)
   \<and> snd (uploadFunction stalled oneRetry report (mergedOptions oneRetry None) 0) = Pending
   \<and> snd (uploadFunction stalled oneRetry report (mergedOptions oneRetry None) 1) = Pending
   \<and> fst (snd (upload stalled [] oneRetry report None))
       = [Fetch \<lparr>address = ''/upload'', verb = POST, head = None, body = [(''file'', Blob report)]\<rparr>,
          RaceTimer (Some 5000),
          emitEvent error (Any (Error ''Upload timeout'')),
          emitEvent retry (RetryInfo 1 (Error ''Upload timeout'')),
          BackoffTimer 1000,
          Fetch \<lparr>address = ''/upload'', verb = POST, head = None, body = [(''file'', Blob report)]\<rparr>,
          RaceTimer (Some 5000),
          emitEvent error (Any (Error ''Upload timeout''))]
   \<and> snd (snd (upload stalled [] oneRetry report None)) = Rejected (Error ''Upload timeout'')
   \<and> snd (upload (\<lambda>req n. timeoutAsRejection (stalled req n)) [] (withTimeoutsAsRejections oneRetry) report None)
       = snd (upload stalled [] oneRetry report None)"
proof -
  let ?opts = "mergedOptions oneRetry None"
  let ?key = "generateFileKey report"
  let ?fetch = "Fetch \<lparr>address = ''/upload'', verb = POST, head = None, body = [(''file'', Blob report)]\<rparr>
    :: nat action"
  have N: "get (maxRetries (config oneRetry)) = Some (int 1)"
    by (simp add: oneRetry_def new_Uploader_def mergeConfig_def emptyConfig_def)
  have none: "get (customUploader (config oneRetry)) = None"
    by (simp add: oneRetry_def emptyConfig_def)
  have call: "uploadCall oneRetry report ?opts = ?fetch"
    by (simp add: uploadCall_def none) (simp add: oneRetry_def fetchRequest_def formData_def)
  have timer: "get (timeout (config oneRetry)) = Some 5000"
    by (simp add: oneRetry_def new_Uploader_def mergeConfig_def emptyConfig_def)
  have slow: "snd (uploadFunction slowThenAnswering oneRetry report ?opts 0) = Pending"
    "snd (uploadFunction slowThenAnswering oneRetry report ?opts 1) = Resolves (Value 9)"
    by (simp_all add: uploadFunction_def none defaultUploader_def Let_def slowThenAnswering_def)
  have pending: "\<forall>k \<le> 1. snd (uploadFunction stalled oneRetry report ?opts k) = Pending"
    by (simp add: uploadFunction_def none defaultUploader_def Let_def stalled_def)
  note first = C8_timeout_is_handled_as_a_failure
    [of slowThenAnswering "[]" oneRetry report None ?opts 0 ?key 1]
  note second = C8_timeout_is_handled_as_a_failure
    [of slowThenAnswering "[]" oneRetry report None ?opts 1 ?key 1]
  note all = C8_timeout_is_handled_as_a_failure
    [of stalled "[]" oneRetry report None ?opts 0 ?key 1]
  from first N have can: "canRetry oneRetry 0"
    by simp
  from second slow(2) have last: "attemptUpload slowThenAnswering oneRetry report ?opts ?key 1 =
      (oneRetry\<lparr>fileCache := (fileCache oneRetry)(?key := None)\<rparr>,
       [uploadCall oneRetry report ?opts, RaceTimer (get (timeout (config oneRetry))),
        emitEvent success (Any (Value 9))],
       Resolved (Value 9))"
    by blast
  from first slow(1) can have step: "attemptUpload slowThenAnswering oneRetry report ?opts ?key 0 =
      (fst (attemptUpload slowThenAnswering oneRetry report ?opts ?key (Suc 0)),
       [uploadCall oneRetry report ?opts, RaceTimer (get (timeout (config oneRetry))),
        emitEvent error (Any (Error ''Upload timeout'')),
        emitEvent retry (RetryInfo (Suc 0) (Error ''Upload timeout'')),
        BackoffTimer (1000 * Suc 0)]
       @ fst (snd (attemptUpload slowThenAnswering oneRetry report ?opts ?key (Suc 0))),
       snd (snd (attemptUpload slowThenAnswering oneRetry report ?opts ?key (Suc 0))))"
    by simp
  from first [THEN conjunct1] step last call timer have recovered:
    "fst (snd (upload slowThenAnswering [] oneRetry report None))
       = [?fetch, RaceTimer (Some 5000),
          emitEvent error (Any (Error ''Upload timeout'')),
          emitEvent retry (RetryInfo 1 (Error ''Upload timeout'')),
          BackoffTimer 1000,
          ?fetch, RaceTimer (Some 5000),
          emitEvent success (Any (Value 9))]"
    "snd (snd (upload slowThenAnswering [] oneRetry report None)) = Resolved (Value 9)"
    by simp_all
  from all N pending have run: "upload stalled [] oneRetry report None =
        (oneRetry,
         concat (map (\<lambda>k.
             [uploadCall oneRetry report ?opts,
              RaceTimer (get (timeout (config oneRetry))),
              emitEvent error (Any (Error ''Upload timeout'')),
              emitEvent retry (RetryInfo (Suc k) (Error ''Upload timeout'')),
              BackoffTimer (1000 * Suc k)]) [0..<1])
         @ [uploadCall oneRetry report ?opts,
            RaceTimer (get (timeout (config oneRetry))),
            emitEvent error (Any (Error ''Upload timeout''))],
         Rejected (Error ''Upload timeout''))"
    by blast
  from all have same: "snd (upload (\<lambda>req n. timeoutAsRejection (stalled req n)) [] (withTimeoutsAsRejections oneRetry) report None)
       = snd (upload stalled [] oneRetry report None)"
    by blast
  from N slow pending recovered same show ?thesis
    unfolding run call timer by simp
qed

text \<open>
  C8 as stated fails for an upload function that throws before it returns a promise: the
  exception is caught before the timer is created, so the attempt races against no timer.
  With no retry allowed the whole run is the call and the error event.
\<close>

theorem C8_counterexample:
  "snd (uploadFunction answering throwingUploader report (mergedOptions throwingUploader None) 0)
     = Throws (Error ''not ready'')
   \<and> upload answering [] throwingUploader report None
       = (throwingUploader,
          [Invoke report \<lparr>url = Val ''/upload'', httpMethod = Val POST, headers = Absent, data = Absent\<rparr>,
           emitEvent error (Any (Error ''not ready''))],
          Rejected (Error ''not ready''))"
proof -
  let ?opts = "mergedOptions throwingUploader None"
  have custom: "get (customUploader (config throwingUploader)) = Some throwing"
    by (simp add: throwingUploader_def emptyConfig_def)
  have oc: "snd (uploadFunction answering throwingUploader report ?opts 0) = Throws (Error ''not ready'')"
    by (simp add: uploadFunction_def custom throwing_def)
  then have race: "race (snd (uploadFunction answering throwingUploader report ?opts 0)) = Inl (Error ''not ready'')"
    by simp
  have no: "\<not> canRetry throwingUploader 0"
    by (simp add: canRetry_def throwingUploader_def new_Uploader_def mergeConfig_def emptyConfig_def)
  have call: "uploadCall throwingUploader report ?opts =
      Invoke report \<lparr>url = Val ''/upload'', httpMethod = Val POST, headers = Absent, data = Absent\<rparr>"
    by (simp add: uploadCall_def custom) (simp add: throwingUploader_def)
  from attemptUpload_exhausted [OF race no, of "generateFileKey report"] oc call
  have "upload answering [] throwingUploader report None
       = (throwingUploader,
          [Invoke report \<lparr>url = Val ''/upload'', httpMethod = Val POST, headers = Absent, data = Absent\<rparr>,
           emitEvent error (Any (Error ''not ready''))],
          Rejected (Error ''not ready''))"
    unfolding upload_eq by simp
  with oc show ?thesis by simp
qed

text \<open>
  C9. \<open>upload\<close> leaves the config and the default upload options as they are. When
  its promise is rejected the cache is the one before the call; when it is resolved the
  cache is the one before the call without the entry under the key of the uploaded file.
  The same holds from any attempt on, and a failed attempt hands the uploader on as it
  got it. A selection removes no key from the cache and leaves the config and the default
  options; \<open>setDefaultUploadOptions\<close> leaves the cache and the config.
\<close>

theorem C9_cache_changes_only_on_success:
  "config (fst (upload net native u f uploadOptions)) = config u
   \<and> defaultUploadOptions (fst (upload net native u f uploadOptions)) = defaultUploadOptions u
   \<and> fileCache (fst (upload net native u f uploadOptions))
       = (case snd (snd (upload net native u f uploadOptions)) of
            Rejected e \<Rightarrow> fileCache u
          | Resolved v \<Rightarrow> (fileCache u)(generateFileKey f := None))
   \<and> fileCache (fst (attemptUpload net u f opts key r))
       = (case snd (snd (attemptUpload net u f opts key r)) of
            Rejected e \<Rightarrow> fileCache u
          | Resolved v \<Rightarrow> (fileCache u)(key := None))
   \<and> ((\<exists>e. race (snd (uploadFunction net u f opts r)) = Inl e) \<longrightarrow>
        fst (attemptUpload net u f opts key r)
          = (if canRetry u r then fst (attemptUpload net u f opts key (Suc r)) else u))
   \<and> dom (fileCache u) \<subseteq> dom (fileCache (fst (handleFileSelection u files)))
   \<and> config (fst (handleFileSelection u files)) = config u
   \<and> defaultUploadOptions (fst (handleFileSelection u files)) = defaultUploadOptions u
   \<and> fileCache (setDefaultUploadOptions u options) = fileCache u
   \<and> config (setDefaultUploadOptions u options) = config u"
proof -
  have up: "fileCache (fst (upload net native u f uploadOptions))
       = (case snd (snd (upload net native u f uploadOptions)) of
            Rejected e \<Rightarrow> fileCache u
          | Resolved v \<Rightarrow> (fileCache u)(generateFileKey f := None))"
    unfolding upload_eq by (rule attemptUpload_cache)
  have failed: "fst (attemptUpload net u f opts key r)
          = (if canRetry u r then fst (attemptUpload net u f opts key (Suc r)) else u)"
    if "\<exists>e. race (snd (uploadFunction net u f opts r)) = Inl e"
  proof -
    from that obtain e where e: "race (snd (uploadFunction net u f opts r)) = Inl e" ..
    show ?thesis
      by (cases "canRetry u r")
        (simp_all add: attemptUpload_retry [OF e] attemptUpload_exhausted [OF e])
  qed
  have sel: "dom (fileCache u) \<subseteq> dom (fileCache (fst (handleFileSelection u files)))"
    "config (fst (handleFileSelection u files)) = config u"
    "defaultUploadOptions (fst (handleFileSelection u files)) = defaultUploadOptions u"
    by (simp_all add: handleFileSelection_def Let_def cacheAll_dom)
  have setd: "fileCache (setDefaultUploadOptions u options) = fileCache u"
    "config (setDefaultUploadOptions u options) = config u"
    by (simp_all add: setDefaultUploadOptions_def)
  from upload_frame(1,2) [of net native u f uploadOptions] up
    attemptUpload_cache [of net u f opts key r] failed sel setd
  show ?thesis by blast
qed

theorem C9_witness:
  "snd (snd (upload answering [] twoCached report None)) = Resolved (Value 200)
   \<and> fileCache (fst (upload answering [] twoCached report None)) (generateFileKey report) = None
   \<and> fileCache (fst (upload answering [] twoCached report None)) (generateFileKey logo) = Some logo
   \<and> snd (snd (upload unreachable [] twoCached report None)) = Rejected (Error ''Failed to fetch'')
   \<and> fileCache (fst (upload unreachable [] twoCached report None)) = fileCache twoCached
   \<and> fileCache twoCached (generateFileKey report) = Some report
   \<and> (\<exists>e. race (snd (uploadFunction unreachable twoCached report (mergedOptions twoCached None) 0)) = Inl e)
   \<and> canRetry twoCached 0
   \<and> fst (attemptUpload unreachable twoCached report (mergedOptions twoCached None) (generateFileKey report) 0)
       = fst (attemptUpload unreachable twoCached report (mergedOptions twoCached None) (generateFileKey report) (Suc 0))"
proof -
  let ?opts = "mergedOptions twoCached None"
  have logo_ok: "withinLimit megabyteUploader logo"
    by (simp add: withinLimit_def megabyteUploader_limit logo_def)
  have keys: "generateFileKey logo \<noteq> generateFileKey report"
    by (simp add: generateFileKey_def logo_def report_def)
  have cfg: "config twoCached = config megabyteUploader"
    by (simp add: twoCached_def handleFileSelection_def Let_def)
  have none: "get (customUploader (config twoCached)) = None"
    unfolding cfg by (simp add: megabyteUploader_def emptyConfig_def)
  have N: "get (maxRetries (config twoCached)) = Some (int 3)"
    unfolding cfg by (simp add: megabyteUploader_def new_Uploader_def mergeConfig_def emptyConfig_def)
  have cache: "fileCache twoCached (generateFileKey report) = Some report"
    "fileCache twoCached (generateFileKey logo) = Some logo"
    using keys by (simp_all add: twoCached_def handleFileSelection_def Let_def logo_ok)
  have ok: "race (snd (uploadFunction answering twoCached report ?opts 0)) = Inr (Value 200)"
    by (simp add: uploadFunction_def none defaultUploader_def Let_def answering_def)
  have resolved: "snd (snd (upload answering [] twoCached report None)) = Resolved (Value 200)"
    unfolding upload_eq using attemptUpload_success [OF ok] by simp
  have down: "race (snd (uploadFunction unreachable twoCached report ?opts k)) = Inl (Error ''Failed to fetch'')" for k
    by (simp add: uploadFunction_def none defaultUploader_def Let_def unreachable_def)
  have can: "canRetry twoCached 0"
    using N by (simp add: canRetry_def)
  have rejected: "snd (snd (upload unreachable [] twoCached report None)) = Rejected (Error ''Failed to fetch'')"
    unfolding upload_eq
    using attemptUpload_all_fail [where errs = "\<lambda>k. Error ''Failed to fetch''" and r = 0
        and net = unreachable and f = report and opts = ?opts and key = "generateFileKey report"
        and T = "get (timeout (config twoCached))", OF N]
    by (simp add: uploadFunction_def none defaultUploader_def Let_def unreachable_def)
  note c9a = C9_cache_changes_only_on_success
    [of answering "[]" twoCached report None ?opts "generateFileKey report" 0 "[]" emptyOptions]
  note c9u = C9_cache_changes_only_on_success
    [of unreachable "[]" twoCached report None ?opts "generateFileKey report" 0 "[]" emptyOptions]
  from c9a resolved have after: "fileCache (fst (upload answering [] twoCached report None))
      = (fileCache twoCached)(generateFileKey report := None)"
    by simp
  from c9u rejected have same: "fileCache (fst (upload unreachable [] twoCached report None)) = fileCache twoCached"
    by simp
  from c9u down can
  have next_attempt: "fst (attemptUpload unreachable twoCached report ?opts (generateFileKey report) 0)
       = fst (attemptUpload unreachable twoCached report ?opts (generateFileKey report) (Suc 0))"
    by simp
  from resolved rejected after same cache keys down can next_attempt show ?thesis
    by simp
qed

end
